theory Spec2Isabelle
  imports Main "HOL-Library.FSet" "HOL-Library.Char_ord" "HOL-Library.List_Lexorder"
begin

section \<open>Python strings\<close>

text \<open>
  A Python \<open>str\<close> is modelled as a HOL \<open>string\<close>, one \<open>char\<close> per code point, so the
  model covers the texts whose code points are below 256 (ASCII and Latin-1). The character
  classes below are the ones CPython uses on that range. Python floats are modelled as
  exact rationals, and Python sets as finite sets (\<open>fset\<close>).
\<close>

definition isspace :: "char \<Rightarrow> bool" where
  \<comment> \<open>\<open>str.isspace\<close> and the class \<open>\s\<close>\<close>
  "isspace c = (let n = (of_char c :: nat) in
     (9 \<le> n \<and> n \<le> 13) \<or> (28 \<le> n \<and> n \<le> 32) \<or> n = 133 \<or> n = 160)"

definition isdigit :: "char \<Rightarrow> bool" where
  \<comment> \<open>the class \<open>\d\<close>: decimal digits\<close>
  "isdigit c = (let n = (of_char c :: nat) in 48 \<le> n \<and> n \<le> 57)"

definition isupper :: "char \<Rightarrow> bool" where
  "isupper c = (let n = (of_char c :: nat) in
     (65 \<le> n \<and> n \<le> 90) \<or> (192 \<le> n \<and> n \<le> 222 \<and> n \<noteq> 215))"

definition islower :: "char \<Rightarrow> bool" where
  "islower c = (let n = (of_char c :: nat) in
     (97 \<le> n \<and> n \<le> 122) \<or> (223 \<le> n \<and> n \<noteq> 247) \<or> n = 170 \<or> n = 181 \<or> n = 186)"

definition isword :: "char \<Rightarrow> bool" where
  \<comment> \<open>the class \<open>\w\<close>: alphanumeric characters and the underscore\<close>
  "isword c = (let n = (of_char c :: nat) in
     isdigit c \<or> isupper c \<or> islower c \<or> n = 95 \<or> n = 178 \<or> n = 179 \<or> n = 185
     \<or> (188 \<le> n \<and> n \<le> 190))"

definition lower_char :: "char \<Rightarrow> char" where
  "lower_char c = (if isupper c then char_of ((of_char c :: nat) + 32) else c)"

definition upper_char :: "char \<Rightarrow> char" where
  \<comment> \<open>the upper-case forms of \<open>U+00B5\<close>, \<open>U+00DF\<close> and \<open>U+00FF\<close> lie outside the range
      and are left unchanged\<close>
  "upper_char c = (let n = (of_char c :: nat) in
     if (97 \<le> n \<and> n \<le> 122) \<or> (224 \<le> n \<and> n \<le> 254 \<and> n \<noteq> 247)
     then char_of (n - 32) else c)"

definition lower :: "string \<Rightarrow> string" where
  "lower s = map lower_char s"

definition strip :: "string \<Rightarrow> string" where
  "strip s = rev (dropWhile isspace (rev (dropWhile isspace s)))"

fun title_from :: "bool \<Rightarrow> string \<Rightarrow> string" where
  "title_from prev_cased [] = []"
| "title_from prev_cased (c # cs) =
     (if isupper c \<or> islower c
      then (if prev_cased then lower_char c else upper_char c) # title_from True cs
      else c # title_from False cs)"

definition title :: "string \<Rightarrow> string" where
  "title s = title_from False s"

fun startswith :: "string \<Rightarrow> string \<Rightarrow> bool" where
  "startswith s [] = True"
| "startswith [] (p # ps) = False"
| "startswith (c # cs) (p # ps) = (c = p \<and> startswith cs ps)"

fun str_in :: "string \<Rightarrow> string \<Rightarrow> bool" where
  \<comment> \<open>\<open>sub in s\<close>\<close>
  "str_in sub [] = (sub = [])"
| "str_in sub (c # cs) = (startswith (c # cs) sub \<or> str_in sub cs)"

fun split_acc :: "char \<Rightarrow> string \<Rightarrow> string \<Rightarrow> string list" where
  "split_acc d cur [] = [rev cur]"
| "split_acc d cur (c # cs) =
     (if c = d then rev cur # split_acc d [] cs else split_acc d (c # cur) cs)"

definition split :: "string \<Rightarrow> char \<Rightarrow> string list" where
  \<comment> \<open>\<open>s.split(d)\<close> for a one-character separator\<close>
  "split s d = split_acc d [] s"

fun split_ws_acc :: "string \<Rightarrow> string \<Rightarrow> string list" where
  "split_ws_acc cur [] = (if cur = [] then [] else [rev cur])"
| "split_ws_acc cur (c # cs) =
     (if isspace c
      then (if cur = [] then split_ws_acc [] cs else rev cur # split_ws_acc [] cs)
      else split_ws_acc (c # cur) cs)"

definition split_ws :: "string \<Rightarrow> string list" where
  \<comment> \<open>\<open>s.split()\<close>: the maximal runs of non-whitespace\<close>
  "split_ws s = split_ws_acc [] s"

fun join :: "string \<Rightarrow> string list \<Rightarrow> string" where
  "join sep [] = []"
| "join sep [x] = x"
| "join sep (x # y # ys) = x @ sep @ join sep (y # ys)"

fun int_digits :: "int \<Rightarrow> string \<Rightarrow> int option" where
  "int_digits acc [] = Some acc"
| "int_digits acc (c # cs) =
     (if isdigit c then int_digits (acc * 10 + (int (of_char c) - 48)) cs else None)"

definition int_max_str_digits :: nat where
  \<comment> \<open>the most digits \<open>int\<close> converts, \<open>sys.int_info.default_max_str_digits\<close>; the
      program never changes the interpreter's setting\<close>
  "int_max_str_digits = 4300"

definition py_int :: "string \<Rightarrow> int option" where
  \<comment> \<open>\<open>int(s)\<close> on a string of decimal digits; \<open>None\<close> stands for \<open>ValueError\<close>, which
      a string of more than 4300 digits raises too. The signs, blanks and underscores
      \<open>int\<close> also accepts never occur in a \<open>\d+\<close> capture.\<close>
  "py_int s = (if s = [] then None
               else if int_max_str_digits < length s then None
               else int_digits 0 s)"

function str_nat :: "nat \<Rightarrow> string" where
  "str_nat n = (if n < 10 then [char_of (n + 48)]
                else str_nat (n div 10) @ [char_of (n mod 10 + 48)])"
  by pat_completeness auto
termination
  by (relation "measure id") auto

definition str_int :: "int \<Rightarrow> string" where
  \<comment> \<open>\<open>str(n)\<close>, as an f-string formats an integer\<close>
  "str_int n = (if n < 0 then CHR ''-'' # str_nat (nat (- n)) else str_nat (nat n))"

definition round_half_even :: "rat \<Rightarrow> int" where
  "round_half_even x = (let f = \<lfloor>x\<rfloor>; d = x - of_int f in
     if d < 1 / 2 then f else if 1 / 2 < d then f + 1 else if even f then f else f + 1)"

definition py_round :: "rat \<Rightarrow> nat \<Rightarrow> rat" where
  \<comment> \<open>\<open>round(x, n)\<close>, rounding the exact value half to even; binary floating point can
      differ from it where a value lies on a tie or on a threshold\<close>
  "py_round x n = of_int (round_half_even (x * 10 ^ n)) / 10 ^ n"

section \<open>Data\<close>

text \<open>
  The dictionaries exchanged by the parsers and the scorer are records whose fields are
  optional: \<open>None\<close> is a missing key, and \<open>get\<close> is \<open>dict.get\<close> with its default.
\<close>

record exp_entry =
  dates :: "string option"
  description :: "string option"

record resume_data =
  r_text :: "string option"
  r_skills :: "string fset option"
  r_experience :: "exp_entry list option"
  r_education :: "string list option"
  r_keywords :: "string fset option"

record job_data =
  j_skills :: "string fset option"
  j_experience_years :: "int option"
  j_education :: "string list option"
  j_responsibilities :: "string list option"
  j_qualifications :: "string list option"
  j_keywords :: "string fset option"
  j_full_text :: "string option"

record score_result =
  overall_score :: rat
  skills_score :: rat
  keywords_score :: rat
  experience_score :: rat
  education_score :: rat
  semantic_score :: rat
  missing_skills :: "string list"
  matched_skills :: "string list"
  strengths :: "string list"
  suggestions :: "string list"

definition get :: "'a option \<Rightarrow> 'a \<Rightarrow> 'a" where
  "get field dflt = (case field of None \<Rightarrow> dflt | Some v \<Rightarrow> v)"

section \<open>Regular expressions\<close>

text \<open>
  The patterns of the program are written as terms of \<open>regex\<close> and run by a backtracking
  matcher with the priorities of Python's \<open>re\<close>: alternatives left to right, repetitions
  greedy. The matcher returns every way of matching at the current position, best first.
  \<open>U+2022\<close>, \<open>U+2013\<close> and \<open>U+2014\<close>, which some patterns mention, lie outside the modelled
  range of characters: they are written \<open>Outside\<close>, and no character of a modelled text is
  equal to them.
\<close>

datatype cls = Ch char | Range char char | Digit | Space | Word | Outside

datatype regex =
    Eps
  | Lit char
  | In "cls list"
  | NotIn "cls list"
  | Cat regex regex
  | Alt regex regex
  | Star regex
  | Group nat regex
  | Boundary
  | NotAhead regex

fun cls_has :: "cls \<Rightarrow> char \<Rightarrow> bool" where
  "cls_has (Ch c) x = (x = c)"
| "cls_has (Range a b) x = (a \<le> x \<and> x \<le> b)"
| "cls_has Digit x = isdigit x"
| "cls_has Space x = isspace x"
| "cls_has Word x = isword x"
| "cls_has Outside x = False"

definition in_class :: "bool \<Rightarrow> cls list \<Rightarrow> char \<Rightarrow> bool" where
  \<comment> \<open>the first argument is the flag \<open>re.IGNORECASE\<close>\<close>
  "in_class ic items x =
     list_ex (\<lambda>i. cls_has i x \<or> (ic \<and> (cls_has i (lower_char x) \<or> cls_has i (upper_char x)))) items"

definition lit_eq :: "bool \<Rightarrow> char \<Rightarrow> char \<Rightarrow> bool" where
  "lit_eq ic c x = (x = c \<or> (ic \<and> lower_char x = lower_char c))"

definition at_boundary :: "string \<Rightarrow> string \<Rightarrow> bool" where
  \<comment> \<open>\<open>\b\<close>, between the reversed text before the position and the text after it\<close>
  "at_boundary b a =
     ((case b of [] \<Rightarrow> False | c # _ \<Rightarrow> isword c) \<noteq>
      (case a of [] \<Rightarrow> False | c # _ \<Rightarrow> isword c))"

type_synonym groups = "(nat \<times> string) list"
type_synonym mstate = "string \<times> string \<times> groups"

definition set_group :: "nat \<Rightarrow> string \<Rightarrow> groups \<Rightarrow> groups" where
  "set_group n s g = (n, s) # filter (\<lambda>p. fst p \<noteq> n) g"

definition consumed :: "string \<Rightarrow> string \<Rightarrow> string" where
  \<comment> \<open>the text read between two positions, given the reversed texts before them\<close>
  "consumed b b' = rev (take (length b' - length b) b')"

fun rx :: "bool \<Rightarrow> regex \<Rightarrow> mstate \<Rightarrow> mstate list" where
  "rx ic Eps st = [st]"
| "rx ic (Lit c) (b, a, g) =
     (case a of [] \<Rightarrow> [] | x # xs \<Rightarrow> if lit_eq ic c x then [(x # b, xs, g)] else [])"
| "rx ic (In items) (b, a, g) =
     (case a of [] \<Rightarrow> [] | x # xs \<Rightarrow> if in_class ic items x then [(x # b, xs, g)] else [])"
| "rx ic (NotIn items) (b, a, g) =
     (case a of [] \<Rightarrow> [] | x # xs \<Rightarrow> if in_class ic items x then [] else [(x # b, xs, g)])"
| "rx ic (Cat r1 r2) st = concat (map (rx ic r2) (rx ic r1 st))"
| "rx ic (Alt r1 r2) st = rx ic r1 st @ rx ic r2 st"
| "rx ic (Star r) (b, a, g) =
     concat (map (\<lambda>st'. if length (fst (snd st')) < length a then rx ic (Star r) st' else [])
                 (rx ic r (b, a, g))) @ [(b, a, g)]"
| "rx ic (Group n r) (b, a, g) =
     map (\<lambda>st'. (fst st', fst (snd st'), set_group n (consumed b (fst st')) (snd (snd st'))))
         (rx ic r (b, a, g))"
| "rx ic Boundary (b, a, g) = (if at_boundary b a then [(b, a, g)] else [])"
| "rx ic (NotAhead r) st = (if rx ic r st = [] then [st] else [])"

text \<open>Derived forms: \<open>r+\<close>, \<open>r?\<close>, \<open>r{n}\<close>, a literal string, a sequence, a choice.\<close>

definition Plus :: "regex \<Rightarrow> regex" where
  "Plus r = Cat r (Star r)"

definition Opt :: "regex \<Rightarrow> regex" where
  "Opt r = Alt r Eps"

fun Rep :: "nat \<Rightarrow> regex \<Rightarrow> regex" where
  "Rep 0 r = Eps"
| "Rep (Suc n) r = Cat r (Rep n r)"

fun Str :: "string \<Rightarrow> regex" where
  "Str [] = Eps"
| "Str (c # cs) = Cat (Lit c) (Str cs)"

fun Seq :: "regex list \<Rightarrow> regex" where
  "Seq [] = Eps"
| "Seq (r # rs) = Cat r (Seq rs)"

fun Alts :: "regex list \<Rightarrow> regex" where
  "Alts [] = NotAhead Eps"
| "Alts [r] = r"
| "Alts (r # rs) = Alt r (Alts rs)"

fun ngroups :: "regex \<Rightarrow> nat" where
  "ngroups (Cat r1 r2) = ngroups r1 + ngroups r2"
| "ngroups (Alt r1 r2) = ngroups r1 + ngroups r2"
| "ngroups (Star r) = ngroups r"
| "ngroups (Group n r) = Suc (ngroups r)"
| "ngroups (NotAhead r) = ngroups r"
| "ngroups r = 0"

text \<open>
  The groups a pattern can set, and the property of a state that group 1 holds a
  non-empty string of digits.
\<close>

fun captures :: "regex \<Rightarrow> nat set" where
  "captures (Group n r) = insert n (captures r)"
| "captures (Cat r1 r2) = captures r1 \<union> captures r2"
| "captures (Alt r1 r2) = captures r1 \<union> captures r2"
| "captures (Star r) = captures r"
| "captures (NotAhead r) = captures r"
| "captures r = {}"

definition digits_group :: "groups \<Rightarrow> bool" where
  "digits_group g = (case map_of g 1 of None \<Rightarrow> False | Some ds \<Rightarrow> ds \<noteq> [] \<and> list_all isdigit ds)"

text \<open>
  A match object: the groups found (group 0 is the whole match) and the position where
  the match ends, as the reversed text before it and the text after it.
\<close>

record match =
  groups :: groups
  before_end :: string
  after_end :: string

definition group :: "match \<Rightarrow> nat \<Rightarrow> string" where
  \<comment> \<open>\<open>m.group(n)\<close> of a group that took part in the match\<close>
  "group m n = (case map_of (groups m) n of None \<Rightarrow> [] | Some s \<Rightarrow> s)"

fun search_from :: "bool \<Rightarrow> regex \<Rightarrow> string \<Rightarrow> string \<Rightarrow> match option" where
  "search_from ic r b a =
     (case rx ic r (b, a, []) of
        st # _ \<Rightarrow> Some \<lparr>groups = set_group 0 (consumed b (fst st)) (snd (snd st)),
                        before_end = fst st, after_end = fst (snd st)\<rparr>
      | [] \<Rightarrow> (case a of [] \<Rightarrow> None | x # xs \<Rightarrow> search_from ic r (x # b) xs))"

definition re_search :: "bool \<Rightarrow> regex \<Rightarrow> string \<Rightarrow> match option" where
  \<comment> \<open>\<open>re.search(pattern, s)\<close>, and with \<open>re.IGNORECASE\<close> when the flag is set\<close>
  "re_search ic r s = search_from ic r [] s"

function finditer_from :: "bool \<Rightarrow> regex \<Rightarrow> string \<Rightarrow> string \<Rightarrow> match list" where
  "finditer_from ic r b a =
     (case search_from ic r b a of
        None \<Rightarrow> []
      | Some m \<Rightarrow>
          m # (if length (after_end m) < length a
               then finditer_from ic r (before_end m) (after_end m)
               else (case a of [] \<Rightarrow> [] | x # xs \<Rightarrow> finditer_from ic r (x # b) xs)))"
  by pat_completeness auto
termination
  by (relation "measure (\<lambda>(ic, r, b, a). length a)") auto

definition re_finditer :: "bool \<Rightarrow> regex \<Rightarrow> string \<Rightarrow> match list" where
  \<comment> \<open>\<open>re.finditer(pattern, s)\<close>: the matches from left to right, each search starting
      where the match before it ended. No pattern of the program matches the empty string.\<close>
  "re_finditer ic r s = finditer_from ic r [] s"

definition re_findall :: "bool \<Rightarrow> regex \<Rightarrow> string \<Rightarrow> string list" where
  \<comment> \<open>\<open>re.findall(pattern, s)\<close> for a pattern with at most one group\<close>
  "re_findall ic r s = map (\<lambda>m. group m (if ngroups r = 0 then 0 else 1)) (re_finditer ic r s)"

section \<open>Sequence matching (difflib)\<close>

text \<open>
  \<open>SequenceMatcher(None, a, b).ratio()\<close> of the standard library, for a second string of
  fewer than 200 characters (from there on the library sets frequent characters aside).
  \<open>find_longest_match\<close> returns the longest common block, the one starting earliest in
  \<open>a\<close> and then earliest in \<open>b\<close>; the blocks left and right of it are matched in turn.
\<close>

fun common_prefix :: "string \<Rightarrow> string \<Rightarrow> nat" where
  "common_prefix (x # xs) (y # ys) = (if x = y then Suc (common_prefix xs ys) else 0)"
| "common_prefix xs ys = 0"

definition find_longest_match :: "string \<Rightarrow> string \<Rightarrow> nat \<times> nat \<times> nat" where
  "find_longest_match a b =
     fold (\<lambda>i best.
             fold (\<lambda>j best.
                     let k = common_prefix (drop i a) (drop j b)
                     in if snd (snd best) < k then (i, j, k) else best)
                  [0..<length b] best)
          [0..<length a] (0, 0, 0)"

function matching_chars :: "string \<Rightarrow> string \<Rightarrow> nat" where
  "matching_chars a b =
     (let best = find_longest_match a b;
          i = fst best; j = fst (snd best); k = snd (snd best)
      in if k = 0 then 0
         else k + matching_chars (take i a) (take j b)
                + matching_chars (drop (i + k) a) (drop (j + k) b))"
  by pat_completeness auto
termination
proof (relation "measure (\<lambda>(a, b). length a + length b)")
  show "wf (measure (\<lambda>(a, b). length a + length b))" by simp
next
  fix a b :: string and best i j k
  assume "best = find_longest_match a b" "i = fst best" "j = fst (snd best)"
    "k = snd (snd best)" "k \<noteq> 0"
  have inner: "\<And>i0 s. (snd (snd s) \<noteq> 0 \<longrightarrow> fst s < length a \<and> fst (snd s) < length b)
      \<Longrightarrow> i0 < length a
      \<Longrightarrow> (let r = fold (\<lambda>j best. let k = common_prefix (drop i0 a) (drop j b)
                     in if snd (snd best) < k then (i0, j, k) else best) [0..<length b] s
           in snd (snd r) \<noteq> 0 \<longrightarrow> fst r < length a \<and> fst (snd r) < length b)"
    unfolding Let_def
    by (rule fold_invariant [where Q = "\<lambda>j. j < length b"]) auto
  have "snd (snd best) \<noteq> 0 \<longrightarrow> fst best < length a \<and> fst (snd best) < length b"
    unfolding \<open>best = find_longest_match a b\<close> find_longest_match_def
    by (rule fold_invariant [where Q = "\<lambda>i. i < length a"]) (use inner in \<open>auto simp: Let_def\<close>)
  then have lt: "i < length a" "j < length b"
    using \<open>k \<noteq> 0\<close> \<open>i = fst best\<close> \<open>j = fst (snd best)\<close> \<open>k = snd (snd best)\<close> by simp_all
  then show "((take i a, take j b), a, b) \<in> measure (\<lambda>(a, b). length a + length b)" by simp
  from lt \<open>k \<noteq> 0\<close>
  show "((drop (i + k) a, drop (j + k) b), a, b) \<in> measure (\<lambda>(a, b). length a + length b)"
    by simp
qed

definition sequence_ratio :: "string \<Rightarrow> string \<Rightarrow> rat" where
  "sequence_ratio a b =
     (let total = length a + length b
      in if total = 0 then 1 else 2 * rat_of_nat (matching_chars a b) / rat_of_nat total)"

section \<open>The resume parser (resume_parser.py)\<close>

definition get_common_skills :: "string list" where
  "get_common_skills =
     [''Python'', ''Java'', ''JavaScript'', ''C++'', ''C#'', ''Ruby'', ''Go'', ''Swift'', ''Kotlin'',
      ''TypeScript'', ''PHP'', ''R'', ''MATLAB'', ''Scala'', ''Perl'', ''Rust'',
      ''HTML'', ''CSS'', ''React'', ''Angular'', ''Vue.js'', ''Node.js'', ''Express'', ''Django'',
      ''Flask'', ''Spring'', ''ASP.NET'', ''jQuery'', ''Bootstrap'', ''SASS'', ''LESS'',
      ''SQL'', ''MySQL'', ''PostgreSQL'', ''MongoDB'', ''Oracle'', ''SQLite'', ''Redis'',
      ''Cassandra'', ''Elasticsearch'', ''DynamoDB'',
      ''AWS'', ''Azure'', ''GCP'', ''Docker'', ''Kubernetes'', ''Jenkins'', ''CI/CD'',
      ''Git'', ''GitHub'', ''GitLab'', ''Terraform'', ''Ansible'', ''Chef'', ''Puppet'',
      ''Machine Learning'', ''Deep Learning'', ''TensorFlow'', ''PyTorch'', ''Keras'',
      ''Pandas'', ''NumPy'', ''Scikit-learn'', ''Data Analysis'', ''Statistics'',
      ''Natural Language Processing'', ''Computer Vision'',
      ''Linux'', ''Unix'', ''Windows'', ''Agile'', ''Scrum'', ''JIRA'', ''Confluence'',
      ''Project Management'', ''Leadership'', ''Communication'', ''Teamwork'',
      ''Problem Solving'', ''Analytical Thinking'']"

definition section_body :: regex where
  \<comment> \<open>\<open>([^\<bullet>\n]+(?:\n(?!\<bullet>)[^\<bullet>\n]+)*)\<close>, the group that ends every section pattern\<close>
  "section_body =
     Group 1 (Seq [Plus (NotIn [Outside, Ch CHR ''\<newline>'']),
                   Star (Seq [Lit CHR ''\<newline>'', NotAhead (In [Outside]),
                              Plus (NotIn [Outside, Ch CHR ''\<newline>''])])])"

definition skills_pattern :: regex where
  \<comment> \<open>\<open>(?:skills?|technical skills?|competencies?)[\s:]*\<close> and the section body\<close>
  "skills_pattern =
     Seq [Alts [Seq [Str ''skill'', Opt (Lit CHR ''s'')],
                Seq [Str ''technical skill'', Opt (Lit CHR ''s'')],
                Seq [Str ''competencie'', Opt (Lit CHR ''s'')]],
          Star (In [Space, Ch CHR '':'']),
          section_body]"

definition extract_skills :: "string \<Rightarrow> string list option \<Rightarrow> string fset" where
  "extract_skills text common_skills =
     (let common_skills = (case common_skills of None \<Rightarrow> get_common_skills | Some l \<Rightarrow> l);
          text_lower = lower text;
          found_skills = fold (\<lambda>skill found_skills.
                                 if str_in (lower skill) text_lower
                                 then finsert skill found_skills else found_skills)
                              common_skills {||}
      in case re_search True skills_pattern text of
           None \<Rightarrow> found_skills
         | Some skills_match \<Rightarrow>
             (let skills_text = group skills_match 1
              in fold (\<lambda>delimiter found_skills.
                         if delimiter \<in> set skills_text
                         then fold (\<lambda>item found_skills.
                                      let skill = strip item
                                      in if 2 < length skill \<and> length skill < 50
                                         then finsert skill found_skills else found_skills)
                                   (split skills_text delimiter) found_skills
                         else found_skills)
                      [CHR '','', CHR '';'', CHR ''|'', CHR ''\<newline>'', CHR ''/'']
                      found_skills))"

definition experience_header :: regex where
  \<comment> \<open>\<open>(experience|employment|work history|professional experience)\<close>\<close>
  "experience_header =
     Group 1 (Alts [Str ''experience'', Str ''employment'', Str ''work history'',
                    Str ''professional experience''])"

definition date_range_pattern :: regex where
  \<comment> \<open>\<open>(\d{4}|\w{3}\s+\d{4})\s*[-..]\s*(\d{4}|\w{3}\s+\d{4}|Present|Current)\<close>, where the
      class holds the hyphen, the en dash and the em dash\<close>
  "date_range_pattern =
     Seq [Group 1 (Alts [Rep 4 (In [Digit]),
                         Seq [Rep 3 (In [Word]), Plus (In [Space]), Rep 4 (In [Digit])]]),
          Star (In [Space]),
          In [Ch CHR ''-'', Outside, Outside],
          Star (In [Space]),
          Group 2 (Alts [Rep 4 (In [Digit]),
                         Seq [Rep 3 (In [Word]), Plus (In [Space]), Rep 4 (In [Digit])],
                         Str ''Present'', Str ''Current''])]"

definition experience_line ::
  "string \<Rightarrow> bool \<times> exp_entry option \<times> exp_entry list \<Rightarrow> bool \<times> exp_entry option \<times> exp_entry list"
  where
  \<comment> \<open>one round of the loop over the lines: the state is \<open>in_experience_section\<close>,
      \<open>current_entry\<close> and \<open>experience\<close>\<close>
  "experience_line line state =
     (let in_experience_section = fst state;
          current_entry = fst (snd state);
          experience = snd (snd state);
          line_stripped = strip line
      in if re_search True experience_header line_stripped \<noteq> None
         then (True, current_entry, experience)
         else if in_experience_section \<and> line_stripped \<noteq> []
         then (case re_search True date_range_pattern line_stripped of
                 Some date_match \<Rightarrow>
                   (in_experience_section,
                    Some \<lparr>dates = Some (group date_match 0), description = Some line_stripped\<rparr>,
                    (case current_entry of None \<Rightarrow> experience | Some e \<Rightarrow> experience @ [e]))
               | None \<Rightarrow>
                   (case current_entry of
                      None \<Rightarrow> state
                    | Some e \<Rightarrow>
                        (in_experience_section,
                         Some (e\<lparr>description := Some (get (description e) [] @ '' '' @ line_stripped)\<rparr>),
                         experience)))
         else state)"

definition extract_experience :: "string \<Rightarrow> exp_entry list" where
  "extract_experience text =
     (let lines = split text CHR ''\<newline>'';
          state = fold experience_line lines (False, None, []);
          current_entry = fst (snd state);
          experience = snd (snd state)
      in case current_entry of None \<Rightarrow> experience | Some e \<Rightarrow> experience @ [e])"

definition resume_degree_pattern :: regex where
  \<comment> \<open>\<open>\b(?:Bachelor|Master|PhD|Doctorate|B\.S\.|B\.A\.|M\.S\.|M\.A\.|Ph\.D\.)\s+(?:of|in)?\s*\w+\<close>\<close>
  "resume_degree_pattern =
     Seq [Boundary,
          Alts [Str ''Bachelor'', Str ''Master'', Str ''PhD'', Str ''Doctorate'', Str ''B.S.'',
                Str ''B.A.'', Str ''M.S.'', Str ''M.A.'', Str ''Ph.D.''],
          Plus (In [Space]), Opt (Alts [Str ''of'', Str ''in'']), Star (In [Space]),
          Plus (In [Word])]"

definition education_section_pattern :: regex where
  \<comment> \<open>\<open>(?:education|academic background)[\s:]*\<close> and the section body\<close>
  "education_section_pattern =
     Seq [Alts [Str ''education'', Str ''academic background''],
          Star (In [Space, Ch CHR '':'']),
          section_body]"

definition extract_education :: "string \<Rightarrow> string list" where
  "extract_education text =
     (let education = re_findall True resume_degree_pattern text
      in case re_search True education_section_pattern text of
           None \<Rightarrow> education
         | Some education_match \<Rightarrow> education @ [strip (group education_match 1)])"

definition capitalized_word :: regex where
  \<comment> \<open>\<open>\b[A-Z][a-z]+\b\<close>\<close>
  "capitalized_word =
     Seq [Boundary, In [Range CHR ''A'' CHR ''Z''], Plus (In [Range CHR ''a'' CHR ''z'']), Boundary]"

text \<open>
  The language pipeline is optional and external. When it is loaded, \<open>nlp\<close> gives for a
  text the noun chunks and the entities with their labels.
\<close>

type_synonym nlp = "string \<Rightarrow> string list \<times> (string \<times> string) list"

definition extract_keywords :: "nlp option \<Rightarrow> string \<Rightarrow> string fset" where
  "extract_keywords nlp text =
     (case nlp of
        None \<Rightarrow> fset_of_list (take 50 (re_findall False capitalized_word text))
      | Some pipeline \<Rightarrow>
          (let doc = pipeline text;
               keywords = fold (\<lambda>chunk keywords.
                                  if length (split_ws chunk) \<le> 3 then finsert chunk keywords
                                  else keywords)
                               (fst doc) {||}
           in fold (\<lambda>ent keywords.
                      if snd ent \<in> set [''ORG'', ''PRODUCT'', ''TECHNOLOGY'']
                      then finsert (fst ent) keywords else keywords)
                   (snd doc) keywords))"

definition parse :: "nlp option \<Rightarrow> string \<Rightarrow> resume_data" where
  \<comment> \<open>\<open>ResumeParser.parse\<close> once \<open>extract_text\<close> has read the file\<close>
  "parse nlp text =
     \<lparr>r_text = Some text,
      r_skills = Some (extract_skills text None),
      r_experience = Some (extract_experience text),
      r_education = Some (extract_education text),
      r_keywords = Some (extract_keywords nlp text)\<rparr>"

section \<open>The job description parser (job_parser.py)\<close>

definition common_skills :: "string list" where
  "common_skills =
     [''python'', ''java'', ''javascript'', ''c++'', ''c#'', ''ruby'', ''go'', ''swift'', ''kotlin'',
      ''typescript'', ''php'', ''r'', ''matlab'', ''scala'', ''perl'', ''rust'',
      ''html'', ''css'', ''react'', ''angular'', ''vue.js'', ''node.js'', ''express'', ''django'',
      ''flask'', ''spring'', ''asp.net'', ''jquery'', ''bootstrap'', ''sass'', ''less'',
      ''sql'', ''mysql'', ''postgresql'', ''mongodb'', ''oracle'', ''sqlite'', ''redis'',
      ''aws'', ''azure'', ''gcp'', ''docker'', ''kubernetes'', ''jenkins'', ''ci/cd'',
      ''git'', ''github'', ''gitlab'', ''terraform'', ''ansible'', ''chef'', ''puppet'',
      ''machine learning'', ''deep learning'', ''tensorflow'', ''pytorch'', ''keras'',
      ''pandas'', ''numpy'', ''scikit-learn'', ''data analysis'', ''statistics'',
      ''linux'', ''unix'', ''windows'', ''agile'', ''scrum'', ''jira'', ''confluence'']"

definition skills_patterns :: "regex list" where
  \<comment> \<open>\<open>(?:required skills?|technical skills?|skills required|qualifications?)[\s:]*\<close> and
      \<open>(?:must have|required)[\s:]*\<close>, each followed by the section body\<close>
  "skills_patterns =
     [Seq [Alts [Seq [Str ''required skill'', Opt (Lit CHR ''s'')],
                 Seq [Str ''technical skill'', Opt (Lit CHR ''s'')],
                 Str ''skills required'',
                 Seq [Str ''qualification'', Opt (Lit CHR ''s'')]],
           Star (In [Space, Ch CHR '':'']),
           section_body],
      Seq [Alts [Str ''must have'', Str ''required''],
           Star (In [Space, Ch CHR '':'']),
           section_body]]"

definition capitalized_terms_pattern :: regex where
  \<comment> \<open>\<open>\b[A-Z][a-zA-Z]*(?:\s+[A-Z][a-zA-Z]*)*\b\<close>\<close>
  "capitalized_terms_pattern =
     Seq [Boundary,
          In [Range CHR ''A'' CHR ''Z''],
          Star (In [Range CHR ''a'' CHR ''z'', Range CHR ''A'' CHR ''Z'']),
          Star (Seq [Plus (In [Space]), In [Range CHR ''A'' CHR ''Z''],
                     Star (In [Range CHR ''a'' CHR ''z'', Range CHR ''A'' CHR ''Z''])]),
          Boundary]"

definition split_on :: "string \<Rightarrow> char option \<Rightarrow> string list" where
  \<comment> \<open>\<open>s.split(d)\<close>, where \<open>None\<close> is the bullet: it occurs in no modelled text, which
      is then returned whole\<close>
  "split_on s d = (case d of None \<Rightarrow> [s] | Some c \<Rightarrow> split s c)"

definition skills_of_match :: "match \<Rightarrow> string fset \<Rightarrow> string fset" where
  \<comment> \<open>the body of the loop over the matches of one pattern\<close>
  "skills_of_match m skills =
     (let skills_text = group m 1;
          capitalized_terms = re_findall False capitalized_terms_pattern skills_text;
          skills = skills |\<union>| fset_of_list (filter (\<lambda>term. 2 < length term) capitalized_terms)
      in fold (\<lambda>delimiter skills.
                 fold (\<lambda>item skills.
                         let item = strip item
                         in if 2 < length item \<and> length item < 50 then finsert item skills
                            else skills)
                      (split_on skills_text delimiter) skills)
              [Some CHR '','', Some CHR '';'', Some CHR ''|'', Some CHR ''\<newline>'', Some CHR ''/'',
               None, Some CHR ''-'']
              skills)"

definition job_extract_skills :: "string \<Rightarrow> string fset" where
  \<comment> \<open>\<open>JobDescriptionParser._extract_skills\<close>\<close>
  "job_extract_skills text =
     (let text_lower = lower text;
          skills = fold (\<lambda>skill skills.
                           if str_in skill text_lower then finsert (title skill) skills else skills)
                        common_skills {||}
      in fold (\<lambda>pattern skills. fold skills_of_match (re_finditer True pattern text) skills)
              skills_patterns skills)"

definition experience_patterns :: "regex list" where
  \<comment> \<open>\<open>(\d+)\+?\s*years?\s*(?:of\s*)?(?:experience|exp)\<close>,
      \<open>minimum\s*(?:of\s*)?(\d+)\s*years?\<close> and \<open>at least\s*(\d+)\s*years?\<close>\<close>
  "experience_patterns =
     [Seq [Group 1 (Plus (In [Digit])), Opt (Lit CHR ''+''), Star (In [Space]),
           Str ''year'', Opt (Lit CHR ''s''), Star (In [Space]),
           Opt (Seq [Str ''of'', Star (In [Space])]),
           Alts [Str ''experience'', Str ''exp'']],
      Seq [Str ''minimum'', Star (In [Space]), Opt (Seq [Str ''of'', Star (In [Space])]),
           Group 1 (Plus (In [Digit])), Star (In [Space]), Str ''year'', Opt (Lit CHR ''s'')],
      Seq [Str ''at least'', Star (In [Space]), Group 1 (Plus (In [Digit])), Star (In [Space]),
           Str ''year'', Opt (Lit CHR ''s'')]]"

fun first_match_years :: "regex list \<Rightarrow> string \<Rightarrow> int option" where
  \<comment> \<open>the loop over the patterns; \<open>None\<close> stands for a \<open>ValueError\<close> of \<open>int\<close>\<close>
  "first_match_years [] text = Some 0"
| "first_match_years (pattern # patterns) text =
     (case re_search True pattern text of
        Some m \<Rightarrow> py_int (group m 1)
      | None \<Rightarrow> first_match_years patterns text)"

definition extract_experience_years :: "string \<Rightarrow> int option" where
  "extract_experience_years text = first_match_years experience_patterns text"

definition job_degree_pattern :: regex where
  \<comment> \<open>\<open>\b(Bachelor|Master|PhD|Doctorate|B\.S\.|B\.A\.|M\.S\.|M\.A\.|Ph\.D\.|BS|BA|MS|MA)\s+(?:degree|of|in)?\s*\w*\<close>\<close>
  "job_degree_pattern =
     Seq [Boundary,
          Group 1 (Alts [Str ''Bachelor'', Str ''Master'', Str ''PhD'', Str ''Doctorate'',
                         Str ''B.S.'', Str ''B.A.'', Str ''M.S.'', Str ''M.A.'', Str ''Ph.D.'',
                         Str ''BS'', Str ''BA'', Str ''MS'', Str ''MA'']),
          Plus (In [Space]), Opt (Alts [Str ''degree'', Str ''of'', Str ''in'']),
          Star (In [Space]), Star (In [Word])]"

definition extract_education_requirements :: "string \<Rightarrow> string list" where
  "extract_education_requirements text =
     map (\<lambda>m. group m 0) (re_finditer True job_degree_pattern text)"

definition section_lines :: "regex \<Rightarrow> string \<Rightarrow> string list" where
  \<comment> \<open>the lines of more than ten characters in the section a pattern finds, at most ten\<close>
  "section_lines pattern text =
     take 10 (case re_search True pattern text of
                None \<Rightarrow> []
              | Some m \<Rightarrow> filter (\<lambda>line. line \<noteq> [] \<and> 10 < length line)
                                (map strip (split (group m 1) CHR ''\<newline>'')))"

definition responsibility_pattern :: regex where
  \<comment> \<open>\<open>(?:responsibilities|key responsibilities|duties?|what you\'ll do)[\s:]*\<close> and the
      section body\<close>
  "responsibility_pattern =
     Seq [Alts [Str ''responsibilities'', Str ''key responsibilities'',
                Seq [Str ''dutie'', Opt (Lit CHR ''s'')], Str ''what you'll do''],
          Star (In [Space, Ch CHR '':'']),
          section_body]"

definition extract_responsibilities :: "string \<Rightarrow> string list" where
  "extract_responsibilities text = section_lines responsibility_pattern text"

definition qualification_pattern :: regex where
  \<comment> \<open>\<open>(?:qualifications?|requirements?|must have)[\s:]*\<close> and the section body\<close>
  "qualification_pattern =
     Seq [Alts [Seq [Str ''qualification'', Opt (Lit CHR ''s'')],
                Seq [Str ''requirement'', Opt (Lit CHR ''s'')], Str ''must have''],
          Star (In [Space, Ch CHR '':'']),
          section_body]"

definition extract_qualifications :: "string \<Rightarrow> string list" where
  "extract_qualifications text = section_lines qualification_pattern text"

definition job_extract_keywords :: "string \<Rightarrow> string fset" where
  \<comment> \<open>\<open>JobDescriptionParser._extract_keywords\<close>\<close>
  "job_extract_keywords text =
     fset_of_list (re_findall False capitalized_terms_pattern text)
     |-| {|''The'', ''A'', ''An'', ''This'', ''That'', ''We'', ''You'', ''Your'', ''Our''|}"

definition extract_requirements :: "string \<Rightarrow> job_data option" where
  \<comment> \<open>\<open>None\<close> stands for an exception leaving the parser\<close>
  "extract_requirements job_description =
     (case extract_experience_years job_description of
        None \<Rightarrow> None
      | Some experience_years \<Rightarrow>
          Some \<lparr>j_skills = Some (job_extract_skills job_description),
                j_experience_years = Some experience_years,
                j_education = Some (extract_education_requirements job_description),
                j_responsibilities = Some (extract_responsibilities job_description),
                j_qualifications = Some (extract_qualifications job_description),
                j_keywords = Some (job_extract_keywords job_description),
                j_full_text = Some job_description\<rparr>)"

section \<open>Semantic similarity (ml_model.py)\<close>

text \<open>
  The TF-IDF vectoriser and the cosine similarity belong to an external library. They are
  a parameter \<open>tfidf\<close>: given the job text and the resume text it returns the similarity,
  or \<open>None\<close> when the library raises an exception inside the \<open>try\<close> block.
\<close>

definition compute_semantic_similarity ::
  "(string \<Rightarrow> string \<Rightarrow> rat option) \<Rightarrow> string \<Rightarrow> string \<Rightarrow> rat" where
  "compute_semantic_similarity tfidf resume_text job_text =
     (let resume_text = strip resume_text;
          job_text = strip job_text
      in if resume_text = [] \<or> job_text = [] then 0
         else (case tfidf job_text resume_text of
                 Some similarity \<Rightarrow> py_round (similarity * 100) 2
               | None \<Rightarrow> 0))"

section \<open>The scorer (ats_scorer.py)\<close>

definition lower_strip :: "string fset \<Rightarrow> string fset" where
  \<comment> \<open>\<open>{s.lower().strip() for s in xs}\<close>\<close>
  "lower_strip xs = (\<lambda>s. strip (lower s)) |`| xs"

definition exact_matches :: "string fset \<Rightarrow> string fset \<Rightarrow> string fset" where
  "exact_matches resume_skills_lower job_skills_lower = resume_skills_lower |\<inter>| job_skills_lower"

text \<open>
  \<open>SequenceMatcher(None, a, b).ratio()\<close> is a parameter \<open>ratio\<close> of the skill scorer. The
  two loops add a job skill as soon as one resume skill is similar enough, so the set they
  build does not depend on the order in which the sets are visited.
\<close>

definition fuzzy_matches ::
  "(string \<Rightarrow> string \<Rightarrow> rat) \<Rightarrow> string fset \<Rightarrow> string fset \<Rightarrow> string fset \<Rightarrow> string fset" where
  "fuzzy_matches ratio resume_skills_lower job_skills_lower exact =
     (let remaining_job_skills = job_skills_lower |-| exact
      in ffilter (\<lambda>job_skill.
                    fBex resume_skills_lower (\<lambda>resume_skill. 8 / 10 < ratio job_skill resume_skill))
                 remaining_job_skills)"

definition score_skills ::
  "(string \<Rightarrow> string \<Rightarrow> rat) \<Rightarrow> string fset \<Rightarrow> string fset \<Rightarrow> rat \<times> string fset \<times> string fset" where
  "score_skills ratio resume_skills job_skills =
     (if job_skills = {||} then (100, {||}, {||})
      else
        let resume_skills_lower = lower_strip resume_skills;
            job_skills_lower = lower_strip job_skills;
            exact = exact_matches resume_skills_lower job_skills_lower;
            fuzzy = fuzzy_matches ratio resume_skills_lower job_skills_lower exact;
            matched = ffilter (\<lambda>job_skill_orig. strip (lower job_skill_orig) |\<in>| exact |\<union>| fuzzy)
                              job_skills;
            total_matches = fcard exact + fcard fuzzy;
            score = (if job_skills_lower \<noteq> {||}
                     then rat_of_nat total_matches / rat_of_nat (fcard job_skills_lower) * 100
                     else 100);
            score = min score 100;
            missing = job_skills |-| matched
        in (score, matched, missing))"

definition score_keywords :: "string fset \<Rightarrow> string fset \<Rightarrow> rat \<times> string fset" where
  "score_keywords resume_keywords job_keywords =
     (if job_keywords = {||} then (100, {||})
      else
        let resume_keywords_lower = lower_strip resume_keywords;
            job_keywords_lower = lower_strip job_keywords;
            matches = resume_keywords_lower |\<inter>| job_keywords_lower;
            matched = ffilter (\<lambda>job_kw_orig. strip (lower job_kw_orig) |\<in>| matches) job_keywords;
            score = (if job_keywords_lower \<noteq> {||}
                     then rat_of_nat (fcard matches) / rat_of_nat (fcard job_keywords_lower) * 100
                     else 100);
            score = min score 100
        in (score, matched))"

definition date_pattern :: regex where
  \<comment> \<open>\<open>(\d{4})\<close>\<close>
  "date_pattern = Group 1 (Rep 4 (In [Digit]))"

definition add_entry_years :: "exp_entry \<Rightarrow> int \<Rightarrow> int" where
  \<comment> \<open>the body of the loop over the experience entries\<close>
  "add_entry_years exp total_years =
     (let years = re_findall False date_pattern (get (dates exp) [])
      in if 2 \<le> length years
         then (case py_int (years ! 0) of
                 None \<Rightarrow> total_years
               | Some start_year \<Rightarrow>
                   (case (if years ! 1 \<noteq> [] then py_int (years ! 1) else Some 2024) of
                      None \<Rightarrow> total_years
                    | Some end_year \<Rightarrow> total_years + (end_year - start_year)))
         else total_years)"

definition extracted_years :: "exp_entry list \<Rightarrow> int" where
  \<comment> \<open>\<open>total_years\<close> when the loop has run\<close>
  "extracted_years resume_experience = fold add_entry_years resume_experience 0"

definition accumulated_years :: "exp_entry list \<Rightarrow> int" where
  \<comment> \<open>\<open>total_years\<close> after the estimate of two years per role\<close>
  "accumulated_years resume_experience =
     (let total_years = extracted_years resume_experience
      in if total_years = 0 \<and> resume_experience \<noteq> []
         then int (length resume_experience) * 2 else total_years)"

definition score_experience :: "exp_entry list \<Rightarrow> int \<Rightarrow> rat" where
  "score_experience resume_experience required_years =
     (if required_years = 0 then 100
      else
        let total_years = accumulated_years resume_experience
        in if required_years \<le> total_years then 100
           else rat_of_int total_years / rat_of_int required_years * 100)"

definition education_match :: "string \<Rightarrow> string \<Rightarrow> bool" where
  \<comment> \<open>\<open>any(term in resume_edu_text for term in job_edu_lower.split()[:2])\<close>\<close>
  "education_match resume_edu_text job_edu =
     (let job_edu_lower = lower job_edu
      in list_ex (\<lambda>term. str_in term resume_edu_text) (take 2 (split_ws job_edu_lower)))"

definition score_education :: "string list \<Rightarrow> string list \<Rightarrow> rat" where
  "score_education resume_education job_education =
     (if job_education = [] then 100
      else
        let resume_edu_text = lower (join '' '' resume_education);
            matches = fold (\<lambda>job_edu matches.
                              if education_match resume_edu_text job_edu then matches + 1 else matches)
                           job_education (0::nat);
            score = (if job_education \<noteq> []
                     then rat_of_nat matches / rat_of_nat (length job_education) * 100
                     else 100)
        in min score 100)"

definition score_semantic ::
  "(string \<Rightarrow> string \<Rightarrow> rat option) \<Rightarrow> string \<Rightarrow> string \<Rightarrow> rat" where
  "score_semantic tfidf resume_text job_text = compute_semantic_similarity tfidf resume_text job_text"

definition generate_strengths ::
  "resume_data \<Rightarrow> job_data \<Rightarrow> string fset \<Rightarrow> string fset \<Rightarrow> rat \<Rightarrow> string list" where
  "generate_strengths resume_data job_data matched matched_keywords semantic =
     (let out = [];
          out = (if 0 < fcard matched
                 then (if 5 \<le> fcard matched
                       then out @ [''Strong technical skills match ('' @ str_nat (fcard matched)
                                   @ '' skills aligned with job requirements)'']
                       else out @ [''Some relevant technical skills ('' @ str_nat (fcard matched)
                                   @ '' matched)''])
                 else out);
          out = (if 0 < fcard matched_keywords
                 then out @ [''Good keyword alignment ('' @ str_nat (fcard matched_keywords)
                             @ '' keywords match)'']
                 else out);
          out = (if 70 \<le> semantic
                 then out @ [''Strong overall alignment to the job description (semantic similarity)'']
                 else out);
          out = (if get (r_experience resume_data) [] \<noteq> []
                 then out @ [''Demonstrated work experience (''
                             @ str_nat (length (get (r_experience resume_data) [])) @ '' positions)'']
                 else out);
          out = (if get (r_education resume_data) [] \<noteq> []
                 then out @ [''Relevant educational background'']
                 else out);
          out = (if out = []
                 then out @ [''Resume shows potential, but needs more alignment with job requirements'']
                 else out)
      in out)"

definition missing_skills_sentence :: "string list \<Rightarrow> string" where
  "missing_skills_sentence top_missing =
     ''Add missing key skills: '' @ join '', '' top_missing
     @ ''. If you have experience with these, make sure they're mentioned in your resume.''"

definition low_score_sentence :: string where
  "low_score_sentence =
     ''Overall score is below average. Consider revising your resume to better align with the job description. Use keywords from the job posting.''"

definition mid_score_sentence :: string where
  "mid_score_sentence =
     ''Score is good but can be improved. Focus on adding missing skills and emphasizing relevant experience more prominently.''"

definition semantic_sentence :: string where
  "semantic_sentence =
     ''Improve semantic alignment: mirror phrasing from the job description, add role-specific keywords in context, and ensure your summary and bullet points reflect the responsibilities.''"

definition experience_sentence :: "int \<Rightarrow> string" where
  "experience_sentence required_years =
     ''The job requires '' @ str_int required_years
     @ '' years of experience. Make sure your experience section is clearly formatted and visible.''"

definition keywords_sentence :: string where
  "keywords_sentence =
     ''Add more relevant keywords and industry-specific terms from the job description to improve ATS parsing.''"

definition formatting_sentence :: string where
  "formatting_sentence =
     ''Ensure your resume uses standard formatting with clear sections: Skills, Experience, Education. Avoid graphics and complex layouts that ATS systems can't parse.''"

text \<open>
  \<open>list(s)\<close> lists a set in its iteration order, which Python leaves open. It is a parameter
  \<open>set_list\<close>; \<open>enumerates\<close> says what every iteration order satisfies.
\<close>

definition enumerates :: "(string fset \<Rightarrow> string list) \<Rightarrow> bool" where
  "enumerates set_list = (\<forall>s. fset_of_list (set_list s) = s \<and> distinct (set_list s))"

definition generate_suggestions ::
  "(string fset \<Rightarrow> string list) \<Rightarrow> string fset \<Rightarrow> job_data \<Rightarrow> resume_data \<Rightarrow> rat \<Rightarrow> rat
   \<Rightarrow> string list" where
  "generate_suggestions set_list missing job_data resume_data overall semantic =
     (let out = [];
          out = (if missing \<noteq> {||}
                 then (let top_missing = take 5 (set_list missing)
                       in if top_missing \<noteq> [] then out @ [missing_skills_sentence top_missing]
                          else out)
                 else out);
          out = (if overall < 60 then out @ [low_score_sentence]
                 else if overall < 80 then out @ [mid_score_sentence]
                 else out);
          out = (if semantic < 60 then out @ [semantic_sentence] else out);
          required_years = get (j_experience_years job_data) 0;
          out = (if 0 < required_years
                 then (let resume_exp = get (r_experience resume_data) []
                       in if length resume_exp = 0 then out @ [experience_sentence required_years]
                          else out)
                 else out);
          out = (if fcard (get (r_keywords resume_data) {||}) < 20 then out @ [keywords_sentence]
                 else out);
          out = out @ [formatting_sentence]
      in out)"

definition calculate_score ::
  "(string \<Rightarrow> string \<Rightarrow> rat) \<Rightarrow> (string fset \<Rightarrow> string list) \<Rightarrow> (string \<Rightarrow> string \<Rightarrow> rat option)
   \<Rightarrow> resume_data \<Rightarrow> job_data \<Rightarrow> score_result" where
  "calculate_score ratio set_list tfidf resume_data job_data =
     (let (skills, skills_match, missing) =
            score_skills ratio (get (r_skills resume_data) {||}) (get (j_skills job_data) {||});
          (keywords, matched_keywords) =
            score_keywords (get (r_keywords resume_data) {||}) (get (j_keywords job_data) {||});
          experience =
            score_experience (get (r_experience resume_data) []) (get (j_experience_years job_data) 0);
          education =
            score_education (get (r_education resume_data) []) (get (j_education job_data) []);
          semantic =
            score_semantic tfidf (get (r_text resume_data) []) (get (j_full_text job_data) []);
          overall = skills * (35 / 100) + keywords * (20 / 100) + experience * (15 / 100)
                    + education * (10 / 100) + semantic * (20 / 100);
          strengths_list = generate_strengths resume_data job_data skills_match matched_keywords semantic;
          suggestions_list = generate_suggestions set_list missing job_data resume_data overall semantic
      in \<lparr>overall_score = py_round overall 1,
          skills_score = py_round skills 1,
          keywords_score = py_round keywords 1,
          experience_score = py_round experience 1,
          education_score = py_round education 1,
          semantic_score = py_round semantic 1,
          missing_skills = set_list missing,
          matched_skills = set_list skills_match,
          strengths = strengths_list,
          suggestions = suggestions_list\<rparr>)"

section \<open>Sample data\<close>

definition ascending :: "string fset \<Rightarrow> string list" where
  \<comment> \<open>one iteration order of sets: alphabetical\<close>
  "ascending s = sorted_list_of_fset s"

definition descending :: "string fset \<Rightarrow> string list" where
  \<comment> \<open>another iteration order: reverse alphabetical\<close>
  "descending s = rev (sorted_list_of_fset s)"

definition failing_tfidf :: "string \<Rightarrow> string \<Rightarrow> rat option" where
  \<comment> \<open>a library call that raises\<close>
  "failing_tfidf job_text resume_text = None"

definition half_tfidf :: "string \<Rightarrow> string \<Rightarrow> rat option" where
  \<comment> \<open>a library call that finds a similarity of one half\<close>
  "half_tfidf job_text resume_text = Some (1 / 2)"

definition no_ratio :: "string \<Rightarrow> string \<Rightarrow> rat" where
  \<comment> \<open>a similarity that never reaches the threshold\<close>
  "no_ratio a b = 0"

definition sample_resume :: resume_data where
  "sample_resume =
     \<lparr>r_text = Some ''Python developer'',
      r_skills = Some {|''Python'', ''SQL''|},
      r_experience = Some [\<lparr>dates = Some ''2019 - 2022'', description = Some ''2019 - 2022 Engineer''\<rparr>],
      r_education = Some [''Bachelor of Science''],
      r_keywords = Some {|''Python''|}\<rparr>"

definition empty_job :: job_data where
  \<comment> \<open>a job description that asks for nothing\<close>
  "empty_job =
     \<lparr>j_skills = Some {||}, j_experience_years = Some 0, j_education = Some [],
      j_responsibilities = Some [], j_qualifications = Some [], j_keywords = Some {||},
      j_full_text = Some []\<rparr>"

definition sample_job :: job_data where
  "sample_job =
     \<lparr>j_skills = Some {|''Python'', ''Java'', ''Rust''|}, j_experience_years = Some 3,
      j_education = Some [''Master degree''],
      j_responsibilities = Some [], j_qualifications = Some [], j_keywords = Some {|''Python''|},
      j_full_text = Some ''Python and Java engineer''\<rparr>"

definition reversed_resume :: resume_data where
  \<comment> \<open>a resume whose only position has its two years the wrong way round\<close>
  "reversed_resume =
     \<lparr>r_text = Some ''Engineer'',
      r_skills = Some {||},
      r_experience = Some [\<lparr>dates = Some ''2022 - 2019'', description = Some ''2022 - 2019 Engineer''\<rparr>],
      r_education = Some [],
      r_keywords = Some {||}\<rparr>"

definition scenario_resume_text :: string where
  "scenario_resume_text = ''Skilled in Python, SQL, 2019 - 2022 Software Engineer''"

definition scenario_job_text :: string where
  "scenario_job_text =
     ''Required skills: Python, Java. Minimum 3 years experience. Bachelor's degree required.''"

section \<open>Properties\<close>

subsection \<open>Equations for evaluation\<close>

text \<open>
  The character classes are defined through the code point. Read off the eight bits of a
  character instead, they evaluate without arithmetic; each equation is checked against
  the definition on all 256 characters.
\<close>

lemma isdigit_bits [code]:
  "isdigit (Char b0 b1 b2 b3 b4 b5 b6 b7) =
     (\<not> b7 \<and> \<not> b6 \<and> b5 \<and> b4 \<and> (\<not> b3 \<or> (\<not> b2 \<and> \<not> b1)))"
  by (cases b0; cases b1; cases b2; cases b3; cases b4; cases b5; cases b6; cases b7;
      simp add: isdigit_def)

lemma isspace_bits [code]:
  "isspace (Char b0 b1 b2 b3 b4 b5 b6 b7) =
     (if b7 then \<not> b6 \<and> \<not> b4 \<and> \<not> b3 \<and> \<not> b1 \<and> (if b5 then \<not> b2 \<and> \<not> b0 else b2 \<and> b0)
      else \<not> b6 \<and> (if b5 then \<not> b4 \<and> \<not> b3 \<and> \<not> b2 \<and> \<not> b1 \<and> \<not> b0
                  else if b4 then b3 \<and> b2
                  else b3 \<and> ((\<not> b2 \<and> (b1 \<or> b0)) \<or> (b2 \<and> \<not> b1))))"
  by (cases b0; cases b1; cases b2; cases b3; cases b4; cases b5; cases b6; cases b7;
      simp add: isspace_def)

lemma isupper_bits [code]:
  "isupper (Char b0 b1 b2 b3 b4 b5 b6 b7) =
     (b6 \<and> \<not> b5 \<and>
      (if b7 then \<not> (b4 \<and> b2 \<and> b1 \<and> b0)
       else (b4 \<or> b3 \<or> b2 \<or> b1 \<or> b0) \<and> \<not> (b4 \<and> b3 \<and> (b2 \<or> (b1 \<and> b0)))))"
  by (cases b0; cases b1; cases b2; cases b3; cases b4; cases b5; cases b6; cases b7;
      simp add: isupper_def)

lemma islower_bits [code]:
  "islower (Char b0 b1 b2 b3 b4 b5 b6 b7) =
     (if b7
      then (if b6 then (if b5 then \<not> (b4 \<and> \<not> b3 \<and> b2 \<and> b1 \<and> b0)
                        else b4 \<and> b3 \<and> b2 \<and> b1 \<and> b0)
            else b5 \<and> ((\<not> b4 \<and> b3 \<and> \<not> b2 \<and> b1 \<and> \<not> b0)
                      \<or> (b4 \<and> \<not> b3 \<and> b2 \<and> \<not> b1 \<and> b0)
                      \<or> (b4 \<and> b3 \<and> \<not> b2 \<and> b1 \<and> \<not> b0)))
      else b6 \<and> b5 \<and> (b4 \<or> b3 \<or> b2 \<or> b1 \<or> b0) \<and> \<not> (b4 \<and> b3 \<and> (b2 \<or> (b1 \<and> b0))))"
  by (cases b0; cases b1; cases b2; cases b3; cases b4; cases b5; cases b6; cases b7;
      simp add: islower_def)

lemma isword_bits [code]:
  "isword (Char b0 b1 b2 b3 b4 b5 b6 b7) =
     (if isdigit (Char b0 b1 b2 b3 b4 b5 b6 b7) then True
      else if isupper (Char b0 b1 b2 b3 b4 b5 b6 b7) then True
      else if islower (Char b0 b1 b2 b3 b4 b5 b6 b7) then True
      else if b7 then \<not> b6 \<and> b5 \<and> b4 \<and> ((\<not> b3 \<and> \<not> b2 \<and> b1) \<or> (b3 \<and> \<not> b2 \<and> \<not> b1 \<and> b0)
                                       \<or> (b3 \<and> b2 \<and> \<not> (b1 \<and> b0)))
      else b6 \<and> \<not> b5 \<and> b4 \<and> b3 \<and> b2 \<and> b1 \<and> b0)"
  by (cases b0; cases b1; cases b2; cases b3; cases b4; cases b5; cases b6; cases b7;
      simp add: isword_def isdigit_def isupper_def islower_def)

lemma lower_char_bits [code]:
  "lower_char (Char b0 b1 b2 b3 b4 b5 b6 b7) =
     (if isupper (Char b0 b1 b2 b3 b4 b5 b6 b7) then Char b0 b1 b2 b3 b4 True b6 b7
      else Char b0 b1 b2 b3 b4 b5 b6 b7)"
  by (cases b0; cases b1; cases b2; cases b3; cases b4; cases b5; cases b6; cases b7;
      simp add: lower_char_def isupper_def char_of_def bit_Suc_0_iff)

lemma upper_char_bits [code]:
  "upper_char (Char b0 b1 b2 b3 b4 b5 b6 b7) =
     (if b5 \<and> isupper (Char b0 b1 b2 b3 b4 False b6 b7) then Char b0 b1 b2 b3 b4 False b6 b7
      else Char b0 b1 b2 b3 b4 b5 b6 b7)"
  by (cases b0; cases b1; cases b2; cases b3; cases b4; cases b5; cases b6; cases b7;
      simp add: upper_char_def isupper_def char_of_def bit_Suc_0_iff)

lemma lit_eq_code [code]:
  "lit_eq ic c x = (if x = c then True else if ic then lower_char x = lower_char c else False)"
  by (simp add: lit_eq_def)

lemma in_class_code [code]:
  "in_class ic items x =
     list_ex (\<lambda>i. if cls_has i x then True
                   else if ic then (if cls_has i (lower_char x) then True
                                    else cls_has i (upper_char x))
                   else False) items"
  by (auto simp: in_class_def list_ex_iff)

subsection \<open>Auxiliary facts\<close>

lemma round_half_even_of_int: "round_half_even (of_int k) = k"
  by (simp add: round_half_even_def)

lemma py_round_of_int: "py_round (of_int k) n = of_int k"
proof -
  have "(of_int k :: rat) * 10 ^ n = of_int (k * 10 ^ n)" by simp
  then have "round_half_even (of_int k * 10 ^ n) = k * 10 ^ n"
    by (simp only: round_half_even_of_int)
  then show ?thesis by (simp add: py_round_def)
qed

lemma py_round_100: "py_round 100 n = 100"
  using py_round_of_int [of 100 n] by simp

lemma py_round_0: "py_round 0 n = 0"
  using py_round_of_int [of 0 n] by simp

lemma enumerates_empty: "enumerates set_list \<Longrightarrow> set_list {||} = []"
  unfolding enumerates_def
  by (metis fset_of_list_simps(1) fset_of_list_elem fempty_iff list.set_intros(1) neq_Nil_conv)

lemma distinct_sorted_list_of_fset: "distinct (sorted_list_of_fset s)"
  by (simp add: sorted_list_of_fset.rep_eq)

lemma enumerates_ascending: "enumerates ascending"
  by (simp add: enumerates_def ascending_def distinct_sorted_list_of_fset)

lemma enumerates_descending: "enumerates descending"
  by (simp add: enumerates_def descending_def distinct_sorted_list_of_fset)

lemma score_skills_empty: "score_skills ratio resume_skills {||} = (100, {||}, {||})"
  by (simp add: score_skills_def)

lemma score_education_empty: "score_education resume_education [] = 100"
  by (simp add: score_education_def)

lemma score_experience_zero: "score_experience resume_experience 0 = 100"
  by (simp add: score_experience_def)

lemma exact_subset: "exact_matches rl jl |\<subseteq>| jl"
  by (simp add: exact_matches_def)

lemma fuzzy_subset: "fuzzy_matches ratio rl jl ex |\<subseteq>| jl |-| ex"
  by (auto simp: fuzzy_matches_def)

lemma exact_fuzzy_card:
  "fcard (exact_matches rl jl) + fcard (fuzzy_matches ratio rl jl (exact_matches rl jl)) \<le> fcard jl"
proof -
  let ?e = "exact_matches rl jl" and ?f = "fuzzy_matches ratio rl jl (exact_matches rl jl)"
  have d: "?e |\<inter>| ?f = {||}" using fuzzy_subset [of ratio rl jl ?e] by auto
  have "?e |\<union>| ?f |\<subseteq>| jl" using exact_subset [of rl jl] fuzzy_subset [of ratio rl jl ?e] by auto
  then have "fcard (?e |\<union>| ?f) \<le> fcard jl" by (rule fcard_mono)
  with d show ?thesis by (simp add: fcard_funion_disjoint)
qed

lemma ratio_le_100:
  assumes "n \<le> m" "0 < m"
  shows "rat_of_nat n / rat_of_nat m * 100 \<le> 100"
proof -
  have "rat_of_nat n \<le> rat_of_nat m" "(0::rat) < rat_of_nat m" using assms by simp_all
  then show ?thesis by (simp add: field_simps)
qed

lemma score_skills_partition:
  "score_skills ratio rs js = (s, ma, mi) \<Longrightarrow> ma |\<union>| mi = js \<and> ma |\<inter>| mi = {||}"
  by (auto simp: score_skills_def Let_def split: if_splits)

lemma low_score_sentence_distinct:
  "low_score_sentence \<noteq> missing_skills_sentence xs" "low_score_sentence \<noteq> mid_score_sentence"
  "low_score_sentence \<noteq> semantic_sentence" "low_score_sentence \<noteq> experience_sentence n"
  "low_score_sentence \<noteq> keywords_sentence" "low_score_sentence \<noteq> formatting_sentence"
  by (simp_all add: missing_skills_sentence_def low_score_sentence_def
      mid_score_sentence_def semantic_sentence_def experience_sentence_def keywords_sentence_def
      formatting_sentence_def)

lemma mid_score_sentence_distinct:
  "mid_score_sentence \<noteq> missing_skills_sentence xs" "mid_score_sentence \<noteq> low_score_sentence"
  "mid_score_sentence \<noteq> semantic_sentence" "mid_score_sentence \<noteq> experience_sentence n"
  "mid_score_sentence \<noteq> keywords_sentence" "mid_score_sentence \<noteq> formatting_sentence"
  by (simp_all add: missing_skills_sentence_def low_score_sentence_def
      mid_score_sentence_def semantic_sentence_def experience_sentence_def keywords_sentence_def
      formatting_sentence_def)

lemma generate_suggestions_eq:
  "generate_suggestions set_list missing job_data resume_data overall semantic =
     (if missing \<noteq> {||} \<and> take 5 (set_list missing) \<noteq> []
      then [missing_skills_sentence (take 5 (set_list missing))] else [])
     @ (if overall < 60 then [low_score_sentence] else [])
     @ (if 60 \<le> overall \<and> overall < 80 then [mid_score_sentence] else [])
     @ (if semantic < 60 then [semantic_sentence] else [])
     @ (if 0 < get (j_experience_years job_data) 0 \<and> get (r_experience resume_data) [] = []
        then [experience_sentence (get (j_experience_years job_data) 0)] else [])
     @ (if fcard (get (r_keywords resume_data) {||}) < 20 then [keywords_sentence] else [])
     @ [formatting_sentence]"
  by (simp add: generate_suggestions_def Let_def)

subsection \<open>The vacuous-match policy\<close>

text \<open>
  Claim C3. A job without skills gives a skill score of 100 and neither matched nor missing
  skills; a job without education requirements gives an education score of 100; a job
  that requires zero years gives an experience score of 100. This holds for every resume,
  both for the scoring functions and for the fields \<open>calculate_score\<close> returns.
\<close>

theorem vacuous_match:
  assumes "enumerates set_list"
  shows "(get (j_skills job_data) {||} = {||} \<longrightarrow>
            score_skills ratio (get (r_skills resume_data) {||}) {||} = (100, {||}, {||})
          \<and> skills_score (calculate_score ratio set_list tfidf resume_data job_data) = 100
          \<and> matched_skills (calculate_score ratio set_list tfidf resume_data job_data) = []
          \<and> missing_skills (calculate_score ratio set_list tfidf resume_data job_data) = [])
       \<and> (get (j_education job_data) [] = [] \<longrightarrow>
            score_education (get (r_education resume_data) []) [] = 100
          \<and> education_score (calculate_score ratio set_list tfidf resume_data job_data) = 100)
       \<and> (get (j_experience_years job_data) 0 = 0 \<longrightarrow>
            score_experience (get (r_experience resume_data) []) 0 = 100
          \<and> experience_score (calculate_score ratio set_list tfidf resume_data job_data) = 100)"
  using enumerates_empty [OF assms]
  by (simp add: calculate_score_def Let_def split_beta score_skills_empty score_education_empty
      score_experience_zero py_round_100)

theorem vacuous_match_witness:
  "enumerates ascending
   \<and> get (j_skills empty_job) {||} = {||} \<and> get (j_education empty_job) [] = []
   \<and> get (j_experience_years empty_job) 0 = 0
   \<and> skills_score (calculate_score no_ratio ascending failing_tfidf sample_resume empty_job) = 100
   \<and> matched_skills (calculate_score no_ratio ascending failing_tfidf sample_resume empty_job) = []
   \<and> missing_skills (calculate_score no_ratio ascending failing_tfidf sample_resume empty_job) = []
   \<and> education_score (calculate_score no_ratio ascending failing_tfidf sample_resume empty_job) = 100
   \<and> experience_score (calculate_score no_ratio ascending failing_tfidf sample_resume empty_job) = 100"
proof -
  have e: "get (j_skills empty_job) {||} = {||}" "get (j_education empty_job) [] = []"
    "get (j_experience_years empty_job) 0 = 0"
    by (simp_all add: empty_job_def get_def)
  show ?thesis
    using e enumerates_ascending
      vacuous_match [OF enumerates_ascending, of empty_job no_ratio sample_resume failing_tfidf]
    by simp
qed

subsection \<open>Matched and missing skills\<close>

text \<open>
  Claim C2. The matched skills and the missing skills that \<open>calculate_score\<close> returns are
  disjoint, and together they are exactly the skills of the job, in the job's own spelling.
  Each of the two lists names a skill once.
\<close>

theorem skills_partition:
  assumes "enumerates set_list"
  shows "(let res = calculate_score ratio set_list tfidf resume_data job_data;
              matched = fset_of_list (matched_skills res);
              missing = fset_of_list (missing_skills res)
          in matched |\<union>| missing = get (j_skills job_data) {||}
             \<and> matched |\<inter>| missing = {||}
             \<and> distinct (matched_skills res) \<and> distinct (missing_skills res))"
proof -
  obtain s ma mi where sk:
    "score_skills ratio (get (r_skills resume_data) {||}) (get (j_skills job_data) {||}) = (s, ma, mi)"
    by (cases "score_skills ratio (get (r_skills resume_data) {||}) (get (j_skills job_data) {||})")
  from score_skills_partition [OF sk]
  have p: "ma |\<union>| mi = get (j_skills job_data) {||}" "ma |\<inter>| mi = {||}" by simp_all
  from assms have e: "\<And>x. fset_of_list (set_list x) = x" "\<And>x. distinct (set_list x)"
    by (simp_all add: enumerates_def)
  show ?thesis
    using p e by (simp add: calculate_score_def Let_def split_beta sk)
qed

theorem skills_partition_witness:
  "enumerates descending
   \<and> fset_of_list (matched_skills (calculate_score no_ratio descending half_tfidf sample_resume sample_job))
     |\<union>| fset_of_list (missing_skills (calculate_score no_ratio descending half_tfidf sample_resume sample_job))
     = {|''Python'', ''Java'', ''Rust''|}
   \<and> fset_of_list (matched_skills (calculate_score no_ratio descending half_tfidf sample_resume sample_job))
     |\<inter>| fset_of_list (missing_skills (calculate_score no_ratio descending half_tfidf sample_resume sample_job))
     = {||}"
  using enumerates_descending
    skills_partition [OF enumerates_descending, of no_ratio half_tfidf sample_resume sample_job]
  by (simp add: Let_def sample_job_def get_def)

subsection \<open>The clamp of the skill score\<close>

text \<open>
  Claim C10. In \<open>score_skills\<close> the exact matches and the fuzzy matches are disjoint subsets
  of the lower-cased job skills, so their counts add up to at most the number of lower-cased
  job skills, and \<open>min score 100\<close> leaves the score as it is.
\<close>

theorem skill_clamp_idle:
  "(let resume_skills_lower = lower_strip resume_skills;
        job_skills_lower = lower_strip job_skills;
        exact = exact_matches resume_skills_lower job_skills_lower;
        fuzzy = fuzzy_matches ratio resume_skills_lower job_skills_lower exact;
        score = rat_of_nat (fcard exact + fcard fuzzy) / rat_of_nat (fcard job_skills_lower) * 100
    in exact |\<subseteq>| job_skills_lower \<and> fuzzy |\<subseteq>| job_skills_lower \<and> exact |\<inter>| fuzzy = {||}
       \<and> fcard exact + fcard fuzzy \<le> fcard job_skills_lower
       \<and> (job_skills \<noteq> {||} \<longrightarrow>
            min score 100 = score \<and> fst (score_skills ratio resume_skills job_skills) = score))"
proof -
  let ?rl = "lower_strip resume_skills" and ?jl = "lower_strip job_skills"
  let ?e = "exact_matches ?rl ?jl"
  let ?f = "fuzzy_matches ratio ?rl ?jl ?e"
  let ?s = "rat_of_nat (fcard ?e + fcard ?f) / rat_of_nat (fcard ?jl) * 100"
  have 1: "?e |\<subseteq>| ?jl" by (rule exact_subset)
  have 2: "?f |\<subseteq>| ?jl" using fuzzy_subset [of ratio ?rl ?jl ?e] by auto
  have 3: "?e |\<inter>| ?f = {||}" using fuzzy_subset [of ratio ?rl ?jl ?e] by auto
  have 4: "fcard ?e + fcard ?f \<le> fcard ?jl" by (rule exact_fuzzy_card)
  have 5: "min ?s 100 = ?s \<and> fst (score_skills ratio resume_skills job_skills) = ?s"
    if ne: "job_skills \<noteq> {||}"
  proof -
    from ne have nz: "?jl \<noteq> {||}" by (auto simp: lower_strip_def)
    then have "0 < fcard ?jl" by (metis fcard_fempty gr0I fcard_0_eq)
    with 4 have "?s \<le> 100" by (rule ratio_le_100)
    then have m: "min ?s 100 = ?s" by simp
    have "fst (score_skills ratio resume_skills job_skills) = min ?s 100"
      using ne nz by (simp add: score_skills_def Let_def)
    with m show ?thesis by simp
  qed
  from 1 2 3 4 5 show ?thesis by (simp add: Let_def)
qed

theorem skill_clamp_idle_witness:
  "{|''Python'', ''Java''|} \<noteq> ({||} :: string fset)
   \<and> fst (score_skills no_ratio {|''PYTHON''|} {|''Python'', ''Java''|})
     = rat_of_nat (fcard (exact_matches (lower_strip {|''PYTHON''|}) (lower_strip {|''Python'', ''Java''|}))
         + fcard (fuzzy_matches no_ratio (lower_strip {|''PYTHON''|}) (lower_strip {|''Python'', ''Java''|})
             (exact_matches (lower_strip {|''PYTHON''|}) (lower_strip {|''Python'', ''Java''|}))))
       / rat_of_nat (fcard (lower_strip {|''Python'', ''Java''|})) * 100"
  using skill_clamp_idle [of "{|''PYTHON''|}" "{|''Python'', ''Java''|}" no_ratio]
  by (simp add: Let_def)

subsection \<open>Suggestions\<close>

text \<open>
  Claim C8. The suggestions are the sentences of the rules that apply, in the order of the
  rules: missing skills (at most five of them, the first five of the set's iteration),
  low score when the overall score is below 60, or else mid score when it is below 80,
  semantic alignment, experience, keywords, and last the formatting sentence, which is
  always there. So the low-score and mid-score sentences never appear together, and the
  list is never empty.
\<close>

theorem suggestions_order:
  "(let out = generate_suggestions set_list missing job_data resume_data overall semantic;
        top_missing = take 5 (set_list missing);
        required_years = get (j_experience_years job_data) 0
    in out =
         (if missing \<noteq> {||} \<and> top_missing \<noteq> [] then [missing_skills_sentence top_missing] else [])
         @ (if overall < 60 then [low_score_sentence] else [])
         @ (if 60 \<le> overall \<and> overall < 80 then [mid_score_sentence] else [])
         @ (if semantic < 60 then [semantic_sentence] else [])
         @ (if 0 < required_years \<and> get (r_experience resume_data) [] = []
            then [experience_sentence required_years] else [])
         @ (if fcard (get (r_keywords resume_data) {||}) < 20 then [keywords_sentence] else [])
         @ [formatting_sentence]
       \<and> length top_missing \<le> 5
       \<and> (low_score_sentence \<in> set out \<longleftrightarrow> overall < 60)
       \<and> (mid_score_sentence \<in> set out \<longleftrightarrow> 60 \<le> overall \<and> overall < 80)
       \<and> out \<noteq> [] \<and> last out = formatting_sentence)"
  unfolding Let_def generate_suggestions_eq
  by (simp add: low_score_sentence_distinct mid_score_sentence_distinct)

theorem suggestions_order_witness:
  "generate_suggestions ascending {|''Java'', ''Rust''|} sample_job sample_resume 70 50 =
     [missing_skills_sentence [''Java'', ''Rust''], mid_score_sentence, semantic_sentence,
      keywords_sentence, formatting_sentence]"
proof -
  have a: "ascending {|''Java'', ''Rust''|} = [''Java'', ''Rust'']"
    unfolding ascending_def by code_simp
  have k: "fcard (get (r_keywords sample_resume) {||}) < 20"
    by (simp add: sample_resume_def get_def fcard_finsert_if fcard_fempty)
  have x: "get (r_experience sample_resume) [] \<noteq> []"
    by (simp add: sample_resume_def get_def)
  show ?thesis
    using suggestions_order [of ascending "{|''Java'', ''Rust''|}" sample_job sample_resume 70 50]
      a k x
    by (simp add: Let_def)
qed

subsection \<open>Failure of the semantic similarity\<close>

text \<open>
  Claim C6. When the resume text or the job text is empty or blank, or the similarity
  library raises, the semantic score is 0 and \<open>calculate_score\<close> returns its result all the
  same; the other four component scores and the skill lists are the ones any other
  outcome of the library would have given.
\<close>

theorem semantic_failure_absorbed:
  assumes "strip (get (r_text resume_data) []) = [] \<or> strip (get (j_full_text job_data) []) = []
           \<or> tfidf (strip (get (j_full_text job_data) [])) (strip (get (r_text resume_data) [])) = None"
  shows "(let res = calculate_score ratio set_list tfidf resume_data job_data;
              res' = calculate_score ratio set_list tfidf' resume_data job_data
          in semantic_score res = 0
             \<and> skills_score res = skills_score res'
             \<and> keywords_score res = keywords_score res'
             \<and> experience_score res = experience_score res'
             \<and> education_score res = education_score res'
             \<and> matched_skills res = matched_skills res'
             \<and> missing_skills res = missing_skills res')"
proof -
  have "score_semantic tfidf (get (r_text resume_data) []) (get (j_full_text job_data) []) = 0"
    using assms by (auto simp: score_semantic_def compute_semantic_similarity_def Let_def)
  then show ?thesis
    by (simp add: calculate_score_def Let_def split_beta py_round_0)
qed

theorem semantic_failure_absorbed_witness:
  "failing_tfidf (strip (get (j_full_text sample_job) [])) (strip (get (r_text sample_resume) [])) = None
   \<and> semantic_score (calculate_score no_ratio ascending failing_tfidf sample_resume sample_job) = 0
   \<and> skills_score (calculate_score no_ratio ascending failing_tfidf sample_resume sample_job)
     = skills_score (calculate_score no_ratio ascending half_tfidf sample_resume sample_job)
   \<and> experience_score (calculate_score no_ratio ascending failing_tfidf sample_resume sample_job)
     = experience_score (calculate_score no_ratio ascending half_tfidf sample_resume sample_job)"
proof -
  have h: "failing_tfidf (strip (get (j_full_text sample_job) [])) (strip (get (r_text sample_resume) [])) = None"
    by (simp add: failing_tfidf_def)
  show ?thesis
    using h semantic_failure_absorbed [of sample_resume sample_job failing_tfidf no_ratio ascending half_tfidf]
    by (simp add: Let_def)
qed

subsection \<open>The range of the scores\<close>

text \<open>
  Claim C1 says that every component score and the overall score lie between 0 and 100.
  The experience score does not: an entry whose date range runs backwards, such as
  \<open>2022 - 2019\<close>, counts for minus three years, and with three years required the score is
  \<open>-100\<close>. With nothing else matching, the overall score is \<open>-15\<close>.
\<close>

theorem experience_score_below_zero:
  "score_experience [\<lparr>dates = Some ''2022 - 2019'', description = Some ''2022 - 2019 Engineer''\<rparr>] 3 = - 100
   \<and> experience_score (calculate_score no_ratio ascending failing_tfidf reversed_resume sample_job) = - 100
   \<and> overall_score (calculate_score no_ratio ascending failing_tfidf reversed_resume sample_job) = - 15"
  by code_simp

subsection \<open>The estimate of two years per position\<close>

text \<open>
  Claim C4 says that the estimate of two years per entry replaces the extracted years
  exactly when no entry has two years in its dates. The scorer tests instead whether the
  years add up to zero: for the single entry \<open>2020 - 2020\<close> two years are found and their
  difference is 0, yet the estimate of 2 years is used, and two required years are met.
\<close>

theorem estimate_after_extraction:
  "re_findall False date_pattern ''2020 - 2020'' = [''2020'', ''2020'']
   \<and> extracted_years [\<lparr>dates = Some ''2020 - 2020'', description = Some ''2020 - 2020 Intern''\<rparr>] = 0
   \<and> accumulated_years [\<lparr>dates = Some ''2020 - 2020'', description = Some ''2020 - 2020 Intern''\<rparr>] = 2
   \<and> score_experience [\<lparr>dates = Some ''2020 - 2020'', description = Some ''2020 - 2020 Intern''\<rparr>] 2 = 100"
  by code_simp

subsection \<open>Determinism\<close>

lemma calculate_score_suggestions:
  "suggestions (calculate_score ratio set_list tfidf resume_data job_data) =
     (let sk = score_skills ratio (get (r_skills resume_data) {||}) (get (j_skills job_data) {||});
          kw = score_keywords (get (r_keywords resume_data) {||}) (get (j_keywords job_data) {||});
          semantic = score_semantic tfidf (get (r_text resume_data) []) (get (j_full_text job_data) []);
          overall = fst sk * (35 / 100) + fst kw * (20 / 100)
            + score_experience (get (r_experience resume_data) []) (get (j_experience_years job_data) 0) * (15 / 100)
            + score_education (get (r_education resume_data) []) (get (j_education job_data) []) * (10 / 100)
            + semantic * (20 / 100)
      in generate_suggestions set_list (snd (snd sk)) job_data resume_data overall semantic)"
  by (simp add: calculate_score_def Let_def split_beta)

text \<open>
  Claim C9, as amended. Two calls on the same resume, the same job and the same similarity,
  whatever the order in which each call iterates over its sets, return the same six
  scores, the same matched and missing skills as sets, and the same strengths. They return
  the same suggestions when they list the same first five missing skills in the same order,
  as two calls with the same iteration order do.
\<close>

theorem iteration_order:
  assumes "enumerates set_list" "enumerates set_list'"
  shows "(let res = calculate_score ratio set_list tfidf resume_data job_data;
              res' = calculate_score ratio set_list' tfidf resume_data job_data
          in overall_score res = overall_score res'
             \<and> skills_score res = skills_score res'
             \<and> keywords_score res = keywords_score res'
             \<and> experience_score res = experience_score res'
             \<and> education_score res = education_score res'
             \<and> semantic_score res = semantic_score res'
             \<and> fset_of_list (matched_skills res) = fset_of_list (matched_skills res')
             \<and> fset_of_list (missing_skills res) = fset_of_list (missing_skills res')
             \<and> strengths res = strengths res'
             \<and> (take 5 (missing_skills res) = take 5 (missing_skills res')
                  \<longrightarrow> suggestions res = suggestions res'))"
proof -
  from assms have e: "\<And>x. fset_of_list (set_list x) = x" "\<And>x. fset_of_list (set_list' x) = x"
    by (simp_all add: enumerates_def)
  have s: "take 5 (missing_skills (calculate_score ratio set_list tfidf resume_data job_data))
             = take 5 (missing_skills (calculate_score ratio set_list' tfidf resume_data job_data))
           \<Longrightarrow> suggestions (calculate_score ratio set_list tfidf resume_data job_data)
             = suggestions (calculate_score ratio set_list' tfidf resume_data job_data)"
    unfolding calculate_score_suggestions Let_def generate_suggestions_eq
    by (simp add: calculate_score_def Let_def split_beta)
  show ?thesis
    unfolding Let_def using s e by (simp add: calculate_score_def Let_def split_beta)
qed

theorem iteration_order_witness:
  "enumerates ascending \<and> enumerates descending
   \<and> overall_score (calculate_score no_ratio ascending half_tfidf sample_resume sample_job)
     = overall_score (calculate_score no_ratio descending half_tfidf sample_resume sample_job)
   \<and> strengths (calculate_score no_ratio ascending half_tfidf sample_resume sample_job)
     = strengths (calculate_score no_ratio descending half_tfidf sample_resume sample_job)"
  using enumerates_ascending enumerates_descending
    iteration_order [OF enumerates_ascending enumerates_descending, of no_ratio half_tfidf sample_resume sample_job]
  by (simp add: Let_def)

text \<open>
  The claim as stated, with identical suggestions in every case, fails: the sample job
  lacks two skills, and the sentence that names them follows the iteration order of the
  set, which the two calls need not share.
\<close>

theorem suggestions_depend_on_iteration_order:
  "enumerates ascending \<and> enumerates descending
   \<and> suggestions (calculate_score no_ratio ascending failing_tfidf sample_resume sample_job)
     \<noteq> suggestions (calculate_score no_ratio descending failing_tfidf sample_resume sample_job)"
proof -
  have a: "hd (suggestions (calculate_score no_ratio ascending failing_tfidf sample_resume sample_job))
      = missing_skills_sentence [''Java'', ''Rust'']"
    by code_simp
  have d: "hd (suggestions (calculate_score no_ratio descending failing_tfidf sample_resume sample_job))
      = missing_skills_sentence [''Rust'', ''Java'']"
    by code_simp
  have "missing_skills_sentence [''Java'', ''Rust''] \<noteq> missing_skills_sentence [''Rust'', ''Java'']"
    by (simp add: missing_skills_sentence_def)
  with a d show ?thesis
    using enumerates_ascending enumerates_descending by metis
qed

subsection \<open>The required years of experience\<close>

lemma map_of_set_group: "n \<noteq> m \<Longrightarrow> map_of (set_group m s g) n = map_of g n"
  by (induction g) (auto simp: set_group_def)

lemma map_of_set_group_same: "map_of (set_group m s g) m = Some s"
  by (simp add: set_group_def)

lemma rx_keeps_group:
  "st' \<in> set (rx ic r st) \<Longrightarrow> n \<notin> captures r \<Longrightarrow> map_of (snd (snd st')) n = map_of (snd (snd st)) n"
proof (induction ic r st arbitrary: st' rule: rx.induct)
  case (1 ic st)
  then show ?case by simp
next
  case (2 ic c b a g)
  then show ?case by (cases a) (auto split: if_splits)
next
  case (3 ic items b a g)
  then show ?case by (cases a) (auto split: if_splits)
next
  case (4 ic items b a g)
  then show ?case by (cases a) (auto split: if_splits)
next
  case (5 ic r1 r2 st)
  from "5.prems" obtain st1 where s1: "st1 \<in> set (rx ic r1 st)" and s2: "st' \<in> set (rx ic r2 st1)"
    by auto
  from "5.prems" have n: "n \<notin> captures r1" "n \<notin> captures r2" by simp_all
  from "5.IH"(1) [OF s1 n(1)] "5.IH"(2) [OF s1 s2 n(2)] show ?case by simp
next
  case (6 ic r1 r2 st)
  from "6.prems" have n: "n \<notin> captures r1" "n \<notin> captures r2" by simp_all
  from "6.prems"(1) have "st' \<in> set (rx ic r1 st) \<or> st' \<in> set (rx ic r2 st)" by simp
  then show ?case using "6.IH"(1) [OF _ n(1)] "6.IH"(2) [OF _ n(2)] by blast
next
  case (7 ic r b a g)
  from "7.prems" have n: "n \<notin> captures r" "n \<notin> captures (Star r)" by simp_all
  from "7.prems"(1) consider "st' = (b, a, g)"
    | st1 where "st1 \<in> set (rx ic r (b, a, g))" "length (fst (snd st1)) < length a"
        "st' \<in> set (rx ic (Star r) st1)"
    by (auto split: if_splits)
  then show ?case
  proof cases
    case 1
    then show ?thesis by simp
  next
    case (2 st1)
    from "7.IH"(1) [OF 2(1) n(1)] "7.IH"(2) [OF 2(1) 2(2) 2(3) n(2)] show ?thesis by simp
  qed
next
  case (8 ic m r b a g)
  from "8.prems" have n: "n \<noteq> m" "n \<notin> captures r" by simp_all
  from "8.prems"(1) obtain st1 where s1: "st1 \<in> set (rx ic r (b, a, g))"
    and eq: "snd (snd st') = set_group m (consumed b (fst st1)) (snd (snd st1))"
    by auto
  from "8.IH" [OF s1 n(2)] eq n(1) show ?case by (simp add: map_of_set_group)
next
  case (9 ic b a g)
  then show ?case by (auto split: if_splits)
next
  case (10 ic r st)
  then show ?case by (auto split: if_splits)
qed


lemma isdigit_lower_char: "isdigit (lower_char c) = isdigit c"
  by (cases c) (simp add: lower_char_bits isdigit_bits isupper_bits)

lemma isdigit_upper_char: "isdigit (upper_char c) = isdigit c"
  by (cases c) (simp add: upper_char_bits isdigit_bits isupper_bits)

lemma in_class_digit: "in_class ic [Digit] x = isdigit x"
  by (auto simp: in_class_def isdigit_lower_char isdigit_upper_char)

lemma rx_star_digits:
  "st' \<in> set (rx ic (Star (In [Digit])) (b, a, g)) \<Longrightarrow>
   \<exists>ds. list_all isdigit ds \<and> fst st' = rev ds @ b \<and> snd (snd st') = g"
proof (induction a arbitrary: b st')
  case Nil
  then show ?case by auto
next
  case (Cons x xs)
  show ?case
  proof (cases "isdigit x")
    case False
    with Cons.prems show ?thesis by (auto simp: in_class_digit)
  next
    case True
    with Cons.prems have "st' = (b, x # xs, g) \<or> st' \<in> set (rx ic (Star (In [Digit])) (x # b, xs, g))"
      by (auto simp: in_class_digit)
    then show ?thesis
    proof
      assume "st' = (b, x # xs, g)"
      then show ?thesis by auto
    next
      assume "st' \<in> set (rx ic (Star (In [Digit])) (x # b, xs, g))"
      from Cons.IH [OF this] obtain ds where
        ds: "list_all isdigit ds" "fst st' = rev ds @ x # b" "snd (snd st') = g" by blast
      with True have "list_all isdigit (x # ds) \<and> fst st' = rev (x # ds) @ b \<and> snd (snd st') = g"
        by simp
      then show ?thesis by blast
    qed
  qed
qed

lemma consumed_rev: "consumed b (rev ds @ b) = ds"
  by (simp add: consumed_def)

lemma rx_digits_group:
  assumes "st' \<in> set (rx ic (Group 1 (Plus (In [Digit]))) st)"
  shows "digits_group (snd (snd st'))"
proof -
  obtain b a g where st: "st = (b, a, g)" by (cases st)
  from assms st obtain st1 where s1: "st1 \<in> set (rx ic (Plus (In [Digit])) (b, a, g))"
    and g': "snd (snd st') = set_group 1 (consumed b (fst st1)) (snd (snd st1))"
    by auto
  from s1 obtain x xs where a: "a = x # xs" and x: "isdigit x"
    and s2: "st1 \<in> set (rx ic (Star (In [Digit])) (x # b, xs, g))"
    by (cases a) (auto simp: Plus_def in_class_digit split: if_splits)
  from rx_star_digits [OF s2] obtain ds where
    ds: "list_all isdigit ds" "fst st1 = rev ds @ x # b" by blast
  then have "fst st1 = rev (x # ds) @ b" by simp
  then have "consumed b (fst st1) = x # ds" by (simp only: consumed_rev)
  with g' x ds(1) show ?thesis
    by (simp add: digits_group_def map_of_set_group_same)
qed

lemma digits_group_kept:
  assumes "st' \<in> set (rx ic r st)" "1 \<notin> captures r" "digits_group (snd (snd st))"
  shows "digits_group (snd (snd st'))"
  using rx_keeps_group [OF assms(1) assms(2)] assms(3) by (simp add: digits_group_def)

lemma cat_digits_first:
  assumes "st' \<in> set (rx ic (Cat (Group n (Plus (In [Digit]))) r) st)" "n = 1" "1 \<notin> captures r"
  shows "digits_group (snd (snd st'))"
proof -
  from assms(1,2) obtain st1 where "st1 \<in> set (rx ic (Group 1 (Plus (In [Digit]))) st)"
    "st' \<in> set (rx ic r st1)" by auto
  then show ?thesis using rx_digits_group digits_group_kept assms(3) by blast
qed

lemma cat_digits_later:
  assumes "st' \<in> set (rx ic (Cat r1 r2) st)"
    "\<And>st1 st2. st2 \<in> set (rx ic r2 st1) \<Longrightarrow> digits_group (snd (snd st2))"
  shows "digits_group (snd (snd st'))"
proof -
  from assms(1) obtain st1 where "st' \<in> set (rx ic r2 st1)" by auto
  then show ?thesis by (rule assms(2))
qed

lemma captures_Str: "captures (Str s) = {}"
  by (induction s) simp_all

lemma experience_patterns_digits:
  assumes "pattern \<in> set experience_patterns" "st' \<in> set (rx ic pattern st)"
  shows "digits_group (snd (snd st'))"
proof -
  from assms(1) consider "pattern = experience_patterns ! 0" | "pattern = experience_patterns ! 1"
    | "pattern = experience_patterns ! 2"
    by (auto simp: experience_patterns_def)
  then show ?thesis
  proof cases
    case 1
    with assms(2) show ?thesis
      unfolding experience_patterns_def
      apply (simp del: rx.simps)
      apply (erule cat_digits_first)
       apply simp
      apply (simp add: Opt_def captures_Str)
      done
  next
    case 2
    with assms(2) show ?thesis
      unfolding experience_patterns_def
      apply (simp del: rx.simps)
      apply (erule cat_digits_later)
      apply (erule cat_digits_later)
      apply (erule cat_digits_later)
      apply (erule cat_digits_first)
       apply simp
      apply (simp add: Opt_def captures_Str)
      done
  next
    case 3
    with assms(2) show ?thesis
      unfolding experience_patterns_def
      apply (simp del: rx.simps)
      apply (erule cat_digits_later)
      apply (erule cat_digits_later)
      apply (erule cat_digits_first)
       apply simp
      apply (simp add: Opt_def captures_Str)
      done
  qed
qed

lemma search_from_digits:
  assumes "\<And>st st'. st' \<in> set (rx ic r st) \<Longrightarrow> digits_group (snd (snd st'))"
  shows "search_from ic r b a = Some m \<Longrightarrow> digits_group (groups m)"
proof (induction a arbitrary: b)
  case Nil
  show ?case
  proof (cases "rx ic r (b, [], [])")
    case Nil
    with Nil.prems show ?thesis by simp
  next
    case (Cons st sts)
    with Nil.prems have "groups m = set_group 0 (consumed b (fst st)) (snd (snd st))" by auto
    moreover from Cons have "st \<in> set (rx ic r (b, [], []))" by simp
    ultimately show ?thesis using assms [of st] by (simp add: digits_group_def map_of_set_group)
  qed
next
  case (Cons x xs)
  show ?case
  proof (cases "rx ic r (b, x # xs, [])")
    case Nil
    with Cons.prems have "search_from ic r (x # b) xs = Some m" by simp
    then show ?thesis by (rule Cons.IH)
  next
    case (Cons st sts)
    with Cons.prems have "groups m = set_group 0 (consumed b (fst st)) (snd (snd st))" by auto
    moreover from Cons have "st \<in> set (rx ic r (b, x # xs, []))" by simp
    ultimately show ?thesis using assms [of st] by (simp add: digits_group_def map_of_set_group)
  qed
qed

lemma int_digits_nonneg:
  "list_all isdigit ds \<Longrightarrow> 0 \<le> acc \<Longrightarrow> \<exists>n. int_digits acc ds = Some n \<and> 0 \<le> n"
proof (induction ds arbitrary: acc)
  case Nil
  then show ?case by simp
next
  case (Cons c cs)
  from Cons.prems have c: "isdigit c" and cs: "list_all isdigit cs" by simp_all
  from c have "48 \<le> int (of_char c)" by (simp add: isdigit_def Let_def)
  with Cons.prems(2) have "0 \<le> acc * 10 + (int (of_char c) - 48)" by simp
  from Cons.IH [OF cs this] c show ?case by simp
qed

lemma digits_group_int:
  assumes "digits_group (groups m)"
  shows "(length (group m 1) \<le> int_max_str_digits \<longrightarrow> (\<exists>n. py_int (group m 1) = Some n \<and> 0 \<le> n))
       \<and> (int_max_str_digits < length (group m 1) \<longrightarrow> py_int (group m 1) = None)"
proof -
  from assms obtain ds where "map_of (groups m) 1 = Some ds" "ds \<noteq> []" "list_all isdigit ds"
    by (auto simp: digits_group_def split: option.splits)
  then show ?thesis using int_digits_nonneg [of ds 0] by (simp add: group_def py_int_def)
qed

lemma pattern_match_digits:
  assumes "pattern \<in> set experience_patterns" "re_search True pattern text = Some m"
  shows "digits_group (groups m)"
proof (rule search_from_digits [where ic = True and r = pattern])
  fix st st'
  assume "st' \<in> set (rx True pattern st)"
  with assms(1) show "digits_group (snd (snd st'))" by (rule experience_patterns_digits)
next
  from assms(2) show "search_from True pattern [] text = Some m" by (simp add: re_search_def)
qed

lemma first_match_years_result:
  assumes "set ps \<subseteq> set experience_patterns"
  shows "(case first_match_years ps text of
            Some n \<Rightarrow> 0 \<le> n
          | None \<Rightarrow> \<exists>p \<in> set ps. \<exists>m. re_search True p text = Some m
                      \<and> int_max_str_digits < length (group m 1))"
  using assms
proof (induction ps)
  case Nil
  then show ?case by simp
next
  case (Cons p ps)
  show ?case
  proof (cases "re_search True p text")
    case None
    with Cons show ?thesis by (auto split: option.splits)
  next
    case (Some m)
    from Cons.prems have "p \<in> set experience_patterns" by simp
    from digits_group_int [OF pattern_match_digits [OF this Some]] Some show ?thesis
      by (cases "int_max_str_digits < length (group m 1)") (auto split: option.splits)
  qed
qed

lemma first_match_years_three:
  assumes "length ps = 3"
  shows "first_match_years ps text =
     (case re_search True (ps ! 0) text of
        Some m \<Rightarrow> py_int (group m 1)
      | None \<Rightarrow>
          (case re_search True (ps ! 1) text of
             Some m \<Rightarrow> py_int (group m 1)
           | None \<Rightarrow>
               (case re_search True (ps ! 2) text of
                  Some m \<Rightarrow> py_int (group m 1)
                | None \<Rightarrow> Some 0)))"
proof -
  from assms obtain p0 p1 p2 where "ps = [p0, p1, p2]"
    by (auto simp: numeral_3_eq_3 length_Suc_conv)
  then show ?thesis by (simp split: option.splits)
qed

text \<open>
  Claim C7, as amended. For every job description, \<open>extract_experience_years\<close> tries the
  three patterns in their fixed order and converts group 1 of the first one that matches;
  it returns 0 when none matches. The group is always a non-empty string of digits. When
  it has at most 4300 digits, the conversion gives a non-negative integer, which is
  returned; when it has more, \<open>int\<close> raises \<open>ValueError\<close> and the function, which does not
  catch it, returns nothing. That is the only way it fails.
\<close>

theorem experience_years_within_limit:
  "extract_experience_years text =
     (case re_search True (experience_patterns ! 0) text of
        Some m \<Rightarrow> py_int (group m 1)
      | None \<Rightarrow>
          (case re_search True (experience_patterns ! 1) text of
             Some m \<Rightarrow> py_int (group m 1)
           | None \<Rightarrow>
               (case re_search True (experience_patterns ! 2) text of
                  Some m \<Rightarrow> py_int (group m 1)
                | None \<Rightarrow> Some 0)))
   \<and> length experience_patterns = 3
   \<and> (\<forall>pattern \<in> set experience_patterns. \<forall>m. re_search True pattern text = Some m \<longrightarrow>
         (length (group m 1) \<le> int_max_str_digits \<longrightarrow> (\<exists>n. py_int (group m 1) = Some n \<and> 0 \<le> n))
         \<and> (int_max_str_digits < length (group m 1) \<longrightarrow> py_int (group m 1) = None))
   \<and> (case extract_experience_years text of
         Some n \<Rightarrow> 0 \<le> n
       | None \<Rightarrow> \<exists>pattern \<in> set experience_patterns. \<exists>m. re_search True pattern text = Some m
                   \<and> int_max_str_digits < length (group m 1))"
proof -
  have 2: "length experience_patterns = 3" by (simp add: experience_patterns_def)
  have 3: "\<forall>pattern \<in> set experience_patterns. \<forall>m. re_search True pattern text = Some m \<longrightarrow>
         (length (group m 1) \<le> int_max_str_digits \<longrightarrow> (\<exists>n. py_int (group m 1) = Some n \<and> 0 \<le> n))
         \<and> (int_max_str_digits < length (group m 1) \<longrightarrow> py_int (group m 1) = None)"
    using digits_group_int pattern_match_digits by blast
  have 4: "(case extract_experience_years text of
         Some n \<Rightarrow> 0 \<le> n
       | None \<Rightarrow> \<exists>pattern \<in> set experience_patterns. \<exists>m. re_search True pattern text = Some m
                   \<and> int_max_str_digits < length (group m 1))"
    unfolding extract_experience_years_def by (rule first_match_years_result) simp
  from first_match_years_three [OF 2] 2 3 4 show ?thesis
    unfolding extract_experience_years_def by blast
qed

theorem experience_years_within_limit_witness:
  "experience_patterns ! 1 \<in> set experience_patterns
   \<and> re_search True (experience_patterns ! 0) ''Minimum of 4 years in a lab'' = None
   \<and> (case re_search True (experience_patterns ! 1) ''Minimum of 4 years in a lab'' of
         Some m \<Rightarrow> group m 1 = ''4'' \<and> length (group m 1) \<le> int_max_str_digits
       | None \<Rightarrow> False)
   \<and> extract_experience_years ''Minimum of 4 years in a lab'' = Some 4
   \<and> extract_experience_years ''At least 7 years in industry'' = Some 7
   \<and> extract_experience_years ''5+ years of experience'' = Some 5
   \<and> extract_experience_years ''No figure is given'' = Some 0"
proof -
  have p: "experience_patterns ! 1 \<in> set experience_patterns"
    by (simp add: experience_patterns_def)
  have a: "re_search True (experience_patterns ! 0) ''Minimum of 4 years in a lab'' = None"
    by code_simp
  have b: "(case re_search True (experience_patterns ! 1) ''Minimum of 4 years in a lab'' of
         Some m \<Rightarrow> group m 1 = ''4'' \<and> length (group m 1) \<le> int_max_str_digits
       | None \<Rightarrow> False)"
    by code_simp
  have i: "py_int ''4'' = Some 4" by code_simp
  have c: "extract_experience_years ''Minimum of 4 years in a lab'' = Some 4"
    using experience_years_within_limit [of "''Minimum of 4 years in a lab''"] a b i
    by (auto split: option.splits)
  have d: "extract_experience_years ''At least 7 years in industry'' = Some 7"
    "extract_experience_years ''5+ years of experience'' = Some 5"
    "extract_experience_years ''No figure is given'' = Some 0"
    by code_simp+
  from p a b c d show ?thesis by blast
qed

lemma digit_not_matched:
  assumes "isdigit d"
  shows "\<not> lit_eq ic CHR ''+'' d" "\<not> lit_eq ic CHR ''y'' d" "\<not> in_class ic [Space] d"
  using assms
  by (cases d; auto simp: lit_eq_def in_class_def lower_char_bits upper_char_bits isupper_bits
      isdigit_bits isspace_bits)+

lemma rx_star_digits_head:
  assumes "list_all isdigit ds" "case rest of [] \<Rightarrow> True | c # _ \<Rightarrow> \<not> isdigit c"
  shows "\<exists>tail. rx ic (Star (In [Digit])) (b, ds @ rest, g) = (rev ds @ b, rest, g) # tail
           \<and> (\<forall>st \<in> set tail. \<exists>d a. fst (snd st) = d # a \<and> isdigit d)"
  using assms(1)
proof (induction ds arbitrary: b)
  case Nil
  from assms(2) have "rx ic (In [Digit]) (b, rest, g) = []"
    by (cases rest) (simp_all add: in_class_digit)
  then show ?case by simp
next
  case (Cons d ds)
  from Cons.prems have d: "isdigit d" and ds: "list_all isdigit ds" by simp_all
  from Cons.IH [OF ds, of "d # b"] obtain tail where
    t: "rx ic (Star (In [Digit])) (d # b, ds @ rest, g) = (rev ds @ d # b, rest, g) # tail"
    and a: "\<forall>st \<in> set tail. \<exists>d a. fst (snd st) = d # a \<and> isdigit d" by blast
  have "rx ic (Star (In [Digit])) (b, (d # ds) @ rest, g)
      = rx ic (Star (In [Digit])) (d # b, ds @ rest, g) @ [(b, d # ds @ rest, g)]"
    using d by (subst rx.simps(7)) (simp add: in_class_digit)
  with t have "rx ic (Star (In [Digit])) (b, (d # ds) @ rest, g)
      = (rev (d # ds) @ b, rest, g) # (tail @ [(b, d # ds @ rest, g)])" by simp
  moreover from a d have "\<forall>st \<in> set (tail @ [(b, d # ds @ rest, g)]). \<exists>d a. fst (snd st) = d # a \<and> isdigit d"
    by auto
  ultimately show ?case by blast
qed

lemma years_suffix_after_digit:
  assumes "isdigit d"
  shows "rx True (Seq [Opt (Lit CHR ''+''), Star (In [Space]), Str ''year'', Opt (Lit CHR ''s''),
           Star (In [Space]), Opt (Seq [Str ''of'', Star (In [Space])]),
           Alts [Str ''experience'', Str ''exp'']]) (b, d # a, g) = []"
  using digit_not_matched [OF assms, of True]
  by (simp add: Opt_def)

lemma years_suffix_matches:
  "rx True (Seq [Opt (Lit CHR ''+''), Star (In [Space]), Str ''year'', Opt (Lit CHR ''s''),
           Star (In [Space]), Opt (Seq [Str ''of'', Star (In [Space])]),
           Alts [Str ''experience'', Str ''exp'']]) (b, '' years experience'', g) \<noteq> []"
  by (simp add: Opt_def lit_eq_def in_class_def lower_char_bits upper_char_bits isupper_bits
      isspace_bits)

lemma long_number_raises:
  assumes "list_all isdigit ds" "int_max_str_digits < length ds"
  shows "extract_experience_years (ds @ '' years experience'') = None"
proof -
  let ?D = "In [Digit]"
  let ?G = "Group 1 (Plus ?D)"
  let ?R = "Seq [Opt (Lit CHR ''+''), Star (In [Space]), Str ''year'', Opt (Lit CHR ''s''),
           Star (In [Space]), Opt (Seq [Str ''of'', Star (In [Space])]),
           Alts [Str ''experience'', Str ''exp'']]"
  let ?rest = "'' years experience''"
  let ?text = "ds @ ?rest"
  let ?f = "\<lambda>st'. (fst st', fst (snd st'), set_group 1 (consumed [] (fst st')) (snd (snd st')))"
  from assms(2) obtain d ds' where ds: "ds = d # ds'" by (cases ds) auto
  with assms(1) have d: "isdigit d" and ds': "list_all isdigit ds'" by simp_all
  have rest: "case ?rest of [] \<Rightarrow> True | c # _ \<Rightarrow> \<not> isdigit c"
    by (simp add: isdigit_bits)
  from rx_star_digits_head [OF ds' rest, of True "[d]" "[]"] obtain tail where
    star: "rx True (Star ?D) ([d], ds' @ ?rest, []) = (rev ds' @ [d], ?rest, []) # tail"
    and tail: "\<forall>st \<in> set tail. \<exists>d a. fst (snd st) = d # a \<and> isdigit d" by blast
  have plus: "rx True (Plus ?D) ([], ?text, []) = (rev ds, ?rest, []) # tail"
    using star d by (simp add: Plus_def ds in_class_digit)
  have "consumed [] (rev ds @ []) = ds" by (rule consumed_rev)
  then have c: "consumed [] (rev ds) = ds" by simp
  have grp: "rx True ?G ([], ?text, []) = (rev ds, ?rest, set_group 1 ds []) # map ?f tail"
    using plus c by simp
  have none: "concat (map (rx True ?R) (map ?f tail)) = []"
  proof -
    have "rx True ?R (?f st) = []" if "st \<in> set tail" for st
    proof -
      from tail that obtain e a where "fst (snd st) = e # a" "isdigit e" by blast
      then show ?thesis using years_suffix_after_digit [of e] by simp
    qed
    then show ?thesis by (simp add: concat_eq_Nil_conv del: rx.simps Seq.simps)
  qed
  have cat: "rx True (Cat ?G ?R) ([], ?text, []) = rx True ?R (rev ds, ?rest, set_group 1 ds [])"
    using grp none by (simp del: Seq.simps rx.simps(1-4,6-10))
  obtain st sts where st: "rx True ?R (rev ds, ?rest, set_group 1 ds []) = st # sts"
    using years_suffix_matches [of "rev ds" "set_group 1 ds []"] by (meson neq_Nil_conv)
  then have "st \<in> set (rx True ?R (rev ds, ?rest, set_group 1 ds []))" by simp
  then have "map_of (snd (snd st)) 1 = map_of (snd (snd (rev ds, ?rest, set_group 1 ds []))) 1"
    by (rule rx_keeps_group) (simp add: Opt_def captures_Str)
  then have g1: "map_of (snd (snd st)) 1 = Some ds" by (simp add: map_of_set_group_same)
  define m where "m = \<lparr>groups = set_group 0 (consumed [] (fst st)) (snd (snd st)),
                        before_end = fst st, after_end = fst (snd st)\<rparr>"
  have search: "re_search True (Cat ?G ?R) ?text = Some m"
    unfolding re_search_def m_def using cat st by (subst search_from.simps) simp
  have "group m 1 = ds" using g1 by (simp add: m_def group_def map_of_set_group)
  with assms(2) have int: "py_int (group m 1) = None" by (simp add: py_int_def)
  have ep: "experience_patterns = Cat ?G ?R # tl experience_patterns"
    by (simp add: experience_patterns_def)
  have "first_match_years (Cat ?G ?R # tl experience_patterns) ?text = None"
    using search int by (simp del: Seq.simps rx.simps)
  then show ?thesis unfolding extract_experience_years_def by (subst ep)
qed

text \<open>
  The claim as stated, an integer for every text, fails on a number of 4301 digits in
  front of \<open>years experience\<close>: the first pattern matches, and the conversion raises.
\<close>

theorem long_number_not_returned:
  "extract_experience_years (replicate 4301 CHR ''1'' @ '' years experience'') = None"
proof -
  have "isdigit CHR ''1''" by (simp add: isdigit_bits)
  then have "list_all isdigit (replicate 4301 CHR ''1'')" by (simp add: list_all_iff)
  moreover have "int_max_str_digits < length (replicate 4301 CHR ''1'')"
    by (simp add: int_max_str_digits_def)
  ultimately show ?thesis by (rule long_number_raises)
qed

subsection \<open>An end-to-end scenario\<close>

lemma scenario_resume_skills:
  "extract_skills scenario_resume_text None =
     {|''Python'', ''SQL'', ''R'', ''ed in Python'', ''2019 - 2022 Software Engineer''|}"
  by code_simp

lemma scenario_resume_experience: "extract_experience scenario_resume_text = []"
  by code_simp

lemma scenario_job_skills:
  "job_extract_skills scenario_job_text =
     {|''Python'', ''Java'', ''R'', ''Minimum'', ''Bachelor'', ''skills: Python''|}"
  by code_simp

lemma scenario_years: "extract_experience_years scenario_job_text = Some 3"
  by code_simp

lemma scenario_score_skills:
  "score_skills sequence_ratio
     {|''Python'', ''SQL'', ''R'', ''ed in Python'', ''2019 - 2022 Software Engineer''|}
     {|''Python'', ''Java'', ''R'', ''Minimum'', ''Bachelor'', ''skills: Python''|} =
   (100 / 3, {|''Python'', ''R''|}, {|''Java'', ''Minimum'', ''Bachelor'', ''skills: Python''|})"
  by code_simp

lemma scenario_score_experience: "score_experience [] 3 = 0"
  by code_simp

lemma py_round_third: "py_round (100 / 3) (Suc 0) = 333 / 10"
  by code_simp

lemma scenario_result:
  assumes "enumerates set_list"
  shows "(case extract_requirements scenario_job_text of
            None \<Rightarrow> False
          | Some job_data \<Rightarrow>
              (let res = calculate_score sequence_ratio set_list tfidf
                           (parse nlp scenario_resume_text) job_data
               in skills_score res = 333 / 10
                  \<and> fset_of_list (matched_skills res) = {|''Python'', ''R''|}
                  \<and> experience_score res = 0
                  \<and> fset_of_list (missing_skills res)
                    = {|''Java'', ''Minimum'', ''Bachelor'', ''skills: Python''|}))"
proof -
  from assms have e: "\<And>x. fset_of_list (set_list x) = x" by (simp add: enumerates_def)
  show ?thesis
    by (simp add: extract_requirements_def scenario_years calculate_score_def parse_def get_def
        Let_def split_beta scenario_resume_skills scenario_job_skills scenario_score_skills
        scenario_resume_experience scenario_score_experience py_round_third py_round_0 e)
qed

text \<open>
  Claim C5, as amended. On the resume text and the job text of the scenario, the two
  parsers and the scorer give a skills score of 33.3: the job parser finds six skills
  (\<open>Python\<close>, \<open>Java\<close>, \<open>R\<close>, \<open>Minimum\<close>, \<open>Bachelor\<close> and \<open>skills: Python\<close>), of which the
  resume has \<open>Python\<close> and \<open>R\<close>. The experience score is 0: the resume text has no
  experience header, so no entry is extracted, against three required years. The missing
  skills are \<open>Java\<close>, \<open>Minimum\<close>, \<open>Bachelor\<close> and \<open>skills: Python\<close>.
\<close>

theorem scenario_scores:
  assumes "enumerates set_list"
  shows "(case extract_requirements scenario_job_text of
            None \<Rightarrow> False
          | Some job_data \<Rightarrow>
              (let res = calculate_score sequence_ratio set_list tfidf
                           (parse nlp scenario_resume_text) job_data
               in skills_score res = 333 / 10
                  \<and> fset_of_list (matched_skills res) = {|''Python'', ''R''|}
                  \<and> experience_score res = 0
                  \<and> fset_of_list (missing_skills res)
                    = {|''Java'', ''Minimum'', ''Bachelor'', ''skills: Python''|}))"
  using assms by (rule scenario_result)

theorem scenario_scores_witness:
  "enumerates ascending
   \<and> (case extract_requirements scenario_job_text of
         None \<Rightarrow> False
       | Some job_data \<Rightarrow>
           (let res = calculate_score sequence_ratio ascending failing_tfidf
                        (parse None scenario_resume_text) job_data
            in skills_score res = 333 / 10
               \<and> fset_of_list (matched_skills res) = {|''Python'', ''R''|}
               \<and> experience_score res = 0
               \<and> fset_of_list (missing_skills res)
                 = {|''Java'', ''Minimum'', ''Bachelor'', ''skills: Python''|}))"
  using enumerates_ascending scenario_scores [OF enumerates_ascending, of failing_tfidf None]
  by simp

text \<open>
  The figures of the claim as stated, a skills score of 50, an experience score of 100 and
  \<open>Java\<close> as the only missing skill, are not what the code returns.
\<close>

theorem scenario_not_as_stated:
  "\<not> (case extract_requirements scenario_job_text of
         None \<Rightarrow> False
       | Some job_data \<Rightarrow>
           (let res = calculate_score sequence_ratio ascending failing_tfidf
                        (parse None scenario_resume_text) job_data
            in skills_score res = 50 \<and> experience_score res = 100
               \<and> fset_of_list (missing_skills res) = {|''Java''|}))"
  using scenario_result [OF enumerates_ascending, of failing_tfidf None]
  by (auto simp: Let_def split: option.splits)

end
